theory Spec2Isabelle
  imports Main "HOL-Library.Sublist" "HOL-Library.Word"
begin

section \<open>PDF processing tools (tools.py)\<close>

text \<open>
  A shallow embedding of \<^verbatim>\<open>tools.py\<close>: the class \<^verbatim>\<open>PDFProcessor\<close> with
  \<^verbatim>\<open>download_pdf\<close>, \<^verbatim>\<open>extract_text_pypdf2\<close>, \<^verbatim>\<open>extract_text_pdfplumber\<close> and
  \<^verbatim>\<open>process_pdf_from_url\<close>, and the module functions \<^verbatim>\<open>download_and_parse_pdf\<close> and
  \<^verbatim>\<open>get_pdf_metadata\<close>.

  The libraries the module calls (\<^verbatim>\<open>urllib.parse\<close>, \<^verbatim>\<open>requests\<close>, \<^verbatim>\<open>PyPDF2\<close>,
  \<^verbatim>\<open>pdfplumber\<close>) are not part of the module. Each library call is a field of the record
  \<open>env\<close> that gives the call's outcome: the value it returns, or the exception it raises.
  Every theorem holds for every such environment. Each function returns, next to its
  value, the list of library calls with an outside effect that it made, in order: the
  HTTP requests and the openings of a document.

  Text is a list of characters, one per code point; the characters of Isabelle have 256
  values, so the model covers the code points below 256. Logging calls are left out: they
  change no value that a function returns.
\<close>

subsection \<open>Python values and string operations\<close>

type_synonym bytes = "8 word list"

datatype exn = RequestException string | PyException string

fun str_exn :: "exn \<Rightarrow> string" where
  "str_exn (RequestException msg) = msg"
| "str_exn (PyException msg) = msg"

datatype pyval = PyNone | PyBool bool | PyInt int | PyStr string

definition digit_char :: "nat \<Rightarrow> char" where
  "digit_char d = char_of (48 + d)"

function str_nat :: "nat \<Rightarrow> string" where
  "str_nat n = (if n < 10 then [digit_char n] else str_nat (n div 10) @ [digit_char (n mod 10)])"
  by pat_completeness auto
termination
  by (relation "measure (\<lambda>n. n)") auto

declare str_nat.simps [simp del]

definition str_int :: "int \<Rightarrow> string" where
  "str_int i = (if i < 0 then CHR ''-'' # str_nat (nat (- i)) else str_nat (nat i))"

text \<open>\<^verbatim>\<open>str(v)\<close>, as an f-string renders a value.\<close>

fun py_str :: "pyval \<Rightarrow> string" where
  "py_str PyNone = ''None''"
| "py_str (PyBool b) = (if b then ''True'' else ''False'')"
| "py_str (PyInt i) = str_int i"
| "py_str (PyStr s) = s"

text \<open>The truth value of a Python value, as \<^verbatim>\<open>not v\<close> reads it.\<close>

fun py_truthy :: "pyval \<Rightarrow> bool" where
  "py_truthy PyNone = False"
| "py_truthy (PyBool b) = b"
| "py_truthy (PyInt i) = (i \<noteq> 0)"
| "py_truthy (PyStr s) = (s \<noteq> [])"

fun isinstance_str :: "pyval \<Rightarrow> bool" where
  "isinstance_str (PyStr s) = True"
| "isinstance_str v = False"

text \<open>\<^verbatim>\<open>str.isspace\<close> on one character: the whitespace code points below 256.\<close>

definition py_isspace :: "char \<Rightarrow> bool" where
  "py_isspace c =
     (let n = (of_char c :: nat)
      in (9 \<le> n \<and> n \<le> 13) \<or> (28 \<le> n \<and> n \<le> 32) \<or> n = 133 \<or> n = 160)"

definition py_strip :: "string \<Rightarrow> string" where
  "py_strip s = rev (dropWhile py_isspace (rev (dropWhile py_isspace s)))"

text \<open>\<^verbatim>\<open>str.lower\<close>: the upper-case letters below 256 are A to Z and the Latin-1 capitals.\<close>

definition py_lower_char :: "char \<Rightarrow> char" where
  "py_lower_char c =
     (let n = (of_char c :: nat)
      in if (65 \<le> n \<and> n \<le> 90) \<or> (192 \<le> n \<and> n \<le> 222 \<and> n \<noteq> 215)
         then char_of (n + 32) else c)"

definition py_lower :: "string \<Rightarrow> string" where
  "py_lower s = map py_lower_char s"

text \<open>\<^verbatim>\<open>method.lower()\<close> on a value: only a \<^verbatim>\<open>str\<close> has the attribute.\<close>

definition attribute_error :: "string \<Rightarrow> exn" where
  "attribute_error type_name =
     PyException (CHR 0x27 # type_name @ CHR 0x27 # '' object has no attribute ''
                  @ CHR 0x27 # ''lower'' @ [CHR 0x27])"

fun method_lower :: "pyval \<Rightarrow> exn + string" where
  "method_lower (PyStr s) = Inr (py_lower s)"
| "method_lower PyNone = Inl (attribute_error ''NoneType'')"
| "method_lower (PyBool b) = Inl (attribute_error ''bool'')"
| "method_lower (PyInt i) = Inl (attribute_error ''int'')"

text \<open>\<^verbatim>\<open>sep.join(xs)\<close>.\<close>

fun py_join :: "string \<Rightarrow> string list \<Rightarrow> string" where
  "py_join sep [] = []"
| "py_join sep [x] = x"
| "py_join sep (x # y # ys) = x @ sep @ py_join sep (y # ys)"

text \<open>\<^verbatim>\<open>s.count(sub)\<close>: the occurrences of \<open>sub\<close> found from the left, none overlapping.\<close>

function py_count :: "string \<Rightarrow> string \<Rightarrow> nat" where
  "py_count s sub =
     (if sub = [] then length s + 1
      else if length s < length sub then 0
      else if take (length sub) s = sub then 1 + py_count (drop (length sub) s) sub
      else py_count (tl s) sub)"
  by pat_completeness auto
termination
  by (relation "measure (\<lambda>(s, sub). length s)") (auto simp: neq_Nil_conv)

declare py_count.simps [simp del]

subsection \<open>The environment: outcomes of the library calls\<close>

text \<open>
  A response of \<^verbatim>\<open>requests\<close>: \<open>raise_for_status\<close> is the exception that the call of that
  name raises, if any; \<open>content\<close> is the body, or the exception raised while it is read
  (the request is made with \<^verbatim>\<open>stream=True\<close>).
\<close>

record response =
  status_code :: int
  headers :: "string \<Rightarrow> string option"
  raise_for_status :: "exn option"
  content :: "exn + bytes"

text \<open>
  A page is the outcome of its \<^verbatim>\<open>extract_text()\<close>: an exception, \<^verbatim>\<open>None\<close>, or a text.
\<close>

type_synonym page = "exn + string option"

record env =
  urlparse :: "string \<Rightarrow> exn + (string \<times> string)"
  session_get :: "string \<Rightarrow> nat \<Rightarrow> exn + response"
  session_head :: "string \<Rightarrow> nat \<Rightarrow> exn + response"
  PdfReader :: "bytes \<Rightarrow> exn + page list"
  pdfplumber_open :: "bytes \<Rightarrow> exn + page list"

datatype event =
    HttpGet string nat
  | HttpHead string nat
  | OpenPdfReader bytes
  | OpenPdfplumber bytes

text \<open>\<^verbatim>\<open>headers.get(key, '')\<close>.\<close>

definition headers_get :: "response \<Rightarrow> string \<Rightarrow> string" where
  "headers_get r key = (case headers r key of None \<Rightarrow> [] | Some v \<Rightarrow> v)"

subsection \<open>PDFProcessor.download_pdf\<close>

text \<open>
  \<open>urlparse\<close> gives the scheme and the network location. Both \<^verbatim>\<open>except\<close> clauses return
  \<^verbatim>\<open>None\<close>; the second one also catches what \<open>urlparse\<close> raises.
\<close>

definition download_pdf :: "env \<Rightarrow> string \<Rightarrow> nat \<Rightarrow> bytes option \<times> event list" where
  "download_pdf e url timeout =
     (case urlparse e url of
        Inl ex \<Rightarrow> (None, [])
      | Inr (scheme, netloc) \<Rightarrow>
          if scheme = [] \<or> netloc = [] then (None, [])
          else
            (case session_get e url timeout of
               Inl ex \<Rightarrow> (None, [HttpGet url timeout])
             | Inr resp \<Rightarrow>
                 (case raise_for_status resp of
                    Some ex \<Rightarrow> (None, [HttpGet url timeout])
                  | None \<Rightarrow>
                      (case content resp of
                         Inl ex \<Rightarrow> (None, [HttpGet url timeout])
                       | Inr pdf_content \<Rightarrow> (Some pdf_content, [HttpGet url timeout])))))"

subsection \<open>The extractors\<close>

definition page_marker :: "nat \<Rightarrow> string" where
  "page_marker page_num = ''\<newline>--- Page '' @ str_nat page_num @ '' ---\<newline>''"

text \<open>
  The loop of \<^verbatim>\<open>extract_text_pypdf2\<close> over \<^verbatim>\<open>enumerate(pdf_reader.pages, 1)\<close>, with the
  list \<open>text_content\<close> it appends to. \<^verbatim>\<open>page_text.strip()\<close> on \<^verbatim>\<open>None\<close> raises inside the
  inner \<^verbatim>\<open>try\<close>, so that page is skipped like one whose \<^verbatim>\<open>extract_text\<close> raises.
\<close>

fun pypdf2_pages :: "nat \<Rightarrow> page list \<Rightarrow> string list \<Rightarrow> string list" where
  "pypdf2_pages page_num [] text_content = text_content"
| "pypdf2_pages page_num (page # pages) text_content =
     (case page of
        Inl ex \<Rightarrow> pypdf2_pages (page_num + 1) pages text_content
      | Inr None \<Rightarrow> pypdf2_pages (page_num + 1) pages text_content
      | Inr (Some page_text) \<Rightarrow>
          if py_strip page_text \<noteq> []
          then pypdf2_pages (page_num + 1) pages
                 (text_content @ [page_marker page_num, page_text])
          else pypdf2_pages (page_num + 1) pages text_content)"

definition extract_text_pypdf2 :: "env \<Rightarrow> bytes \<Rightarrow> string \<times> event list" where
  "extract_text_pypdf2 e pdf_content =
     (case PdfReader e pdf_content of
        Inl ex \<Rightarrow> ([], [OpenPdfReader pdf_content])
      | Inr pages \<Rightarrow>
          (py_join ''\<newline>'' (pypdf2_pages 1 pages []), [OpenPdfReader pdf_content]))"

text \<open>
  The loop of \<^verbatim>\<open>extract_text_pdfplumber\<close>; its test is
  \<^verbatim>\<open>page_text and page_text.strip()\<close>, false on \<^verbatim>\<open>None\<close> and on the empty text.
\<close>

fun pdfplumber_pages :: "nat \<Rightarrow> page list \<Rightarrow> string list \<Rightarrow> string list" where
  "pdfplumber_pages page_num [] text_content = text_content"
| "pdfplumber_pages page_num (page # pages) text_content =
     (case page of
        Inl ex \<Rightarrow> pdfplumber_pages (page_num + 1) pages text_content
      | Inr page_text_opt \<Rightarrow>
          if (case page_text_opt of None \<Rightarrow> False
              | Some page_text \<Rightarrow> page_text \<noteq> [] \<and> py_strip page_text \<noteq> [])
          then pdfplumber_pages (page_num + 1) pages
                 (text_content @ [page_marker page_num, the page_text_opt])
          else pdfplumber_pages (page_num + 1) pages text_content)"

definition extract_text_pdfplumber :: "env \<Rightarrow> bytes \<Rightarrow> string \<times> event list" where
  "extract_text_pdfplumber e pdf_content =
     (case pdfplumber_open e pdf_content of
        Inl ex \<Rightarrow> ([], [OpenPdfplumber pdf_content])
      | Inr pages \<Rightarrow>
          (py_join ''\<newline>'' (pdfplumber_pages 1 pages []), [OpenPdfplumber pdf_content]))"

subsection \<open>PDFProcessor.process_pdf_from_url\<close>

record metadata =
  md_url :: string
  md_method :: pyval
  pages_processed :: nat
  content_length :: nat

record pipeline_result =
  success :: bool
  text' :: string
  error :: "string option"
  metadata :: metadata

definition initial_result :: "string \<Rightarrow> pyval \<Rightarrow> pipeline_result" where
  "initial_result url method =
     \<lparr>success = False, text' = [], error = None,
      metadata = \<lparr>md_url = url, md_method = method, pages_processed = 0, content_length = 0\<rparr>\<rparr>"

text \<open>\<^verbatim>\<open>not pdf_content\<close>: true on \<^verbatim>\<open>None\<close> and on the empty byte string.\<close>

fun not_pdf_content :: "bytes option \<Rightarrow> bool" where
  "not_pdf_content None = True"
| "not_pdf_content (Some bs) = (bs = [])"

text \<open>
  The body of the \<^verbatim>\<open>try\<close>: \<open>Inl\<close> is an exception that reaches the \<^verbatim>\<open>except\<close> clause.
  \<open>download_pdf\<close> and the two extractors catch every exception themselves; what is left is
  \<^verbatim>\<open>method.lower()\<close> on a value that is not a \<^verbatim>\<open>str\<close>.
\<close>

definition process_pdf_from_url_try ::
  "env \<Rightarrow> string \<Rightarrow> pyval \<Rightarrow> (exn + pipeline_result) \<times> event list" where
  "process_pdf_from_url_try e url method =
     (let result = initial_result url method;
          (pdf_content, ev1) = download_pdf e url 30
      in if not_pdf_content pdf_content
         then (Inr (result\<lparr>error := Some ''Failed to download PDF''\<rparr>), ev1)
         else
           (case method_lower method of
              Inl ex \<Rightarrow> (Inl ex, ev1)
            | Inr lowered \<Rightarrow>
                (let (extracted_text, ev2) =
                       (if lowered = ''pdfplumber''
                        then extract_text_pdfplumber e (the pdf_content)
                        else extract_text_pypdf2 e (the pdf_content))
                 in if py_strip extracted_text = []
                    then (Inr (result\<lparr>error := Some ''No text could be extracted from PDF''\<rparr>),
                          ev1 @ ev2)
                    else
                      (Inr (result
                             \<lparr>success := True,
                              text' := extracted_text,
                              metadata := (metadata result)
                                \<lparr>content_length := length extracted_text,
                                 pages_processed := py_count extracted_text ''--- Page''\<rparr>\<rparr>),
                       ev1 @ ev2))))"

definition process_pdf_from_url ::
  "env \<Rightarrow> string \<Rightarrow> pyval \<Rightarrow> pipeline_result \<times> event list" where
  "process_pdf_from_url e url method =
     (case process_pdf_from_url_try e url method of
        (Inr result, ev) \<Rightarrow> (result, ev)
      | (Inl ex, ev) \<Rightarrow>
          ((initial_result url method)
             \<lparr>error := Some (''Unexpected error processing PDF: '' @ str_exn ex)\<rparr>, ev))"

subsection \<open>download_and_parse_pdf\<close>

definition report_header :: "metadata \<Rightarrow> string" where
  "report_header m =
     ''\<newline>=== PDF Processing Results ===\<newline>Source URL: '' @ md_url m
     @ ''\<newline>Pages Processed: '' @ str_nat (pages_processed m)
     @ ''\<newline>Content Length: '' @ str_nat (content_length m)
     @ '' characters\<newline>Extraction Method: '' @ py_str (md_method m)
     @ ''\<newline>=== Text Content ===\<newline>\<newline>''"

text \<open>\<^verbatim>\<open>f"{result['error']}"\<close>: the text, or \<^verbatim>\<open>None\<close> written out.\<close>

fun str_error :: "string option \<Rightarrow> string" where
  "str_error None = ''None''"
| "str_error (Some msg) = msg"

text \<open>The url of a value that passed \<^verbatim>\<open>isinstance(url, str)\<close>.\<close>

fun str_of :: "pyval \<Rightarrow> string" where
  "str_of (PyStr s) = s"
| "str_of v = py_str v"

text \<open>
  The body of the \<^verbatim>\<open>try\<close> of \<^verbatim>\<open>download_and_parse_pdf\<close>; none of its steps raises on
  the values modelled, so it always returns \<open>Inr\<close>.
\<close>

definition download_and_parse_pdf_try ::
  "env \<Rightarrow> pyval \<Rightarrow> pyval \<Rightarrow> (exn + string) \<times> event list" where
  "download_and_parse_pdf_try e url extraction_method =
     (if \<not> py_truthy url \<or> \<not> isinstance_str url
      then (Inr ''Error: Invalid URL provided'', [])
      else
        (let extraction_method' =
               (if extraction_method \<notin> set [PyStr ''pdfplumber'', PyStr ''pypdf2'']
                then PyStr ''pdfplumber'' else extraction_method);
             (result, ev) = process_pdf_from_url e (str_of url) extraction_method'
         in if success result
            then (Inr (report_header (metadata result) @ text' result), ev)
            else (Inr (''Failed to process PDF: '' @ str_error (error result)), ev)))"

definition download_and_parse_pdf :: "env \<Rightarrow> pyval \<Rightarrow> pyval \<Rightarrow> string \<times> event list" where
  "download_and_parse_pdf e url extraction_method =
     (case download_and_parse_pdf_try e url extraction_method of
        (Inr out, ev) \<Rightarrow> (out, ev)
      | (Inl ex, ev) \<Rightarrow> (''Unexpected error in download_and_parse_pdf: '' @ str_exn ex, ev))"

subsection \<open>get_pdf_metadata\<close>

datatype probe =
    Probe string string string int string
  | ProbeError string string

text \<open>
  \<open>Probe\<close> holds \<^verbatim>\<open>content_type\<close>, \<^verbatim>\<open>content_length\<close>, \<^verbatim>\<open>last_modified\<close>,
  \<^verbatim>\<open>status_code\<close> and \<^verbatim>\<open>url\<close>; \<open>ProbeError\<close> holds \<^verbatim>\<open>error\<close> and \<^verbatim>\<open>url\<close>.
\<close>

definition get_pdf_metadata :: "env \<Rightarrow> string \<Rightarrow> probe \<times> event list" where
  "get_pdf_metadata e url =
     (case session_head e url 10 of
        Inl ex \<Rightarrow> (ProbeError (str_exn ex) url, [HttpHead url 10])
      | Inr resp \<Rightarrow>
          (case raise_for_status resp of
             Some ex \<Rightarrow> (ProbeError (str_exn ex) url, [HttpHead url 10])
           | None \<Rightarrow>
               (Probe (headers_get resp ''content-type'')
                      (headers_get resp ''content-length'')
                      (headers_get resp ''last-modified'')
                      (status_code resp) url,
                [HttpHead url 10])))"

subsection \<open>Outcomes of the download\<close>

text \<open>
  The two ways \<open>download_pdf\<close> returns \<^verbatim>\<open>None\<close>: the URL has no scheme or no network
  location (or \<open>urlparse\<close> raises), and the request, the status check or the reading of
  the body raises.
\<close>

definition invalid_url :: "env \<Rightarrow> string \<Rightarrow> bool" where
  "invalid_url e url =
     (case urlparse e url of
        Inl ex \<Rightarrow> True
      | Inr (scheme, netloc) \<Rightarrow> scheme = [] \<or> netloc = [])"

definition network_error :: "env \<Rightarrow> string \<Rightarrow> nat \<Rightarrow> bool" where
  "network_error e url timeout =
     (case session_get e url timeout of
        Inl ex \<Rightarrow> True
      | Inr resp \<Rightarrow> raise_for_status resp \<noteq> None \<or> isl (content resp))"

text \<open>The envelope that \<open>process_pdf_from_url\<close> returns when it has no content.\<close>

definition download_failed :: "string \<Rightarrow> pyval \<Rightarrow> pipeline_result" where
  "download_failed url method =
     \<lparr>success = False, text' = [], error = Some ''Failed to download PDF'',
      metadata = \<lparr>md_url = url, md_method = method, pages_processed = 0, content_length = 0\<rparr>\<rparr>"

subsection \<open>Example environments\<close>

text \<open>
  Concrete environments for the examples below: the URLs of one host parse into a scheme
  and a host and every other text into neither; the request has a fixed outcome, and so
  has opening a document with each library.
\<close>

definition example_url :: string where
  "example_url = ''https://example.org/a.pdf''"

definition example_env ::
  "(exn + response) \<Rightarrow> (exn + page list) \<Rightarrow> (exn + page list) \<Rightarrow> env" where
  "example_env request_outcome reader_outcome plumber_outcome =
     \<lparr>urlparse = (\<lambda>u. if prefix ''https://example.org/'' u
                       then Inr (''https'', ''example.org'') else Inr ([], [])),
      session_get = (\<lambda>u t. request_outcome),
      session_head = (\<lambda>u t. request_outcome),
      PdfReader = (\<lambda>b. reader_outcome),
      pdfplumber_open = (\<lambda>b. plumber_outcome)\<rparr>"

definition example_body :: bytes where
  "example_body = [0x25, 0x50, 0x44, 0x46]"

definition response_200 :: "bytes \<Rightarrow> response" where
  "response_200 body =
     \<lparr>status_code = 200,
      headers = [''content-type'' \<mapsto> ''application/pdf''],
      raise_for_status = None,
      content = Inr body\<rparr>"

definition response_404 :: response where
  "response_404 =
     \<lparr>status_code = 404,
      headers = Map.empty,
      raise_for_status = Some (RequestException ''404 Client Error''),
      content = Inr []\<rparr>"

text \<open>A document of three pages whose second page cannot be read.\<close>

definition three_pages :: "page list" where
  "three_pages = [Inr (Some ''Hello''), Inl (PyException ''bad page''), Inr (Some ''x y'')]"

definition env_three_pages :: env where
  "env_three_pages =
     example_env (Inr (response_200 example_body)) (Inr three_pages) (Inr three_pages)"

definition env_empty_body :: env where
  "env_empty_body =
     example_env (Inr (response_200 []))
       (Inl (PyException ''Cannot read an empty file''))
       (Inl (PyException ''No /Root object''))"

definition env_not_found :: env where
  "env_not_found = example_env (Inr response_404) (Inr three_pages) (Inr three_pages)"

definition env_timeout :: env where
  "env_timeout =
     example_env (Inl (RequestException ''Read timed out'')) (Inr three_pages) (Inr three_pages)"

text \<open>A body that neither library can open.\<close>

definition env_malformed :: env where
  "env_malformed =
     example_env (Inr (response_200 example_body))
       (Inl (PyException ''EOF marker not found''))
       (Inl (PyException ''No /Root object''))"

text \<open>A body that only \<^verbatim>\<open>pdfplumber\<close> can open.\<close>

definition env_plumber_only :: env where
  "env_plumber_only =
     example_env (Inr (response_200 example_body))
       (Inl (PyException ''EOF marker not found''))
       (Inr three_pages)"

subsection \<open>Documents given by the texts of their pages\<close>

text \<open>Pages whose \<^verbatim>\<open>extract_text()\<close> returns the given texts, in order.\<close>

definition text_pages :: "string list \<Rightarrow> page list" where
  "text_pages ts = map (\<lambda>t. Inr (Some t)) ts"

text \<open>
  The marker and the text of consecutive pages, the first of them numbered
  \<open>page_num\<close>: what the extractors append for pages that all have text.
\<close>

fun page_blocks :: "nat \<Rightarrow> string list \<Rightarrow> string list" where
  "page_blocks page_num [] = []"
| "page_blocks page_num (t # ts) = page_marker page_num # t # page_blocks (page_num + 1) ts"

text \<open>A document whose first page holds one blank and whose second page cannot be read.\<close>

definition blank_page_document :: "page list" where
  "blank_page_document = [Inr (Some '' ''), Inl (PyException ''bad page'')]"

definition env_blank_page :: env where
  "env_blank_page =
     example_env (Inr (response_200 example_body))
       (Inr blank_page_document) (Inr blank_page_document)"

subsection \<open>A page whose text holds a page marker\<close>

definition marker_in_text_document :: "page list" where
  "marker_in_text_document = [Inr (Some ''See --- Page 2 --- below'')]"

definition env_marker_in_text :: env where
  "env_marker_in_text =
     example_env (Inr (response_200 example_body))
       (Inr marker_in_text_document) (Inr marker_in_text_document)"

subsection \<open>Reading a report back\<close>

definition label_source :: string where
  "label_source = ''\<newline>=== PDF Processing Results ===\<newline>Source URL: ''"

definition label_pages :: string where
  "label_pages = ''Pages Processed: ''"

definition label_length :: string where
  "label_length = ''Content Length: ''"

definition suffix_characters :: string where
  "suffix_characters = '' characters''"

definition label_method :: string where
  "label_method = ''Extraction Method: ''"

definition label_content :: string where
  "label_content = ''=== Text Content ===\<newline>\<newline>''"

text \<open>
  The report of a successful result, as the success branch of
  \<open>download_and_parse_pdf\<close> builds it: the header, then the text.
\<close>

definition format_report :: "pipeline_result \<Rightarrow> string" where
  "format_report r = report_header (metadata r) @ text' r"

definition strip_prefix :: "string \<Rightarrow> string \<Rightarrow> string option" where
  "strip_prefix p s = (if take (length p) s = p then Some (drop (length p) s) else None)"

definition strip_suffix :: "string \<Rightarrow> string \<Rightarrow> string option" where
  "strip_suffix sfx s =
     (if length sfx \<le> length s \<and> drop (length s - length sfx) s = sfx
      then Some (take (length s - length sfx) s) else None)"

text \<open>The text up to the first line break, and the text after that line break.\<close>

definition split_line :: "string \<Rightarrow> (string \<times> string) option" where
  "split_line s =
     (if CHR ''\<newline>'' \<in> set s
      then Some (takeWhile (\<lambda>c. c \<noteq> CHR ''\<newline>'') s,
                 tl (dropWhile (\<lambda>c. c \<noteq> CHR ''\<newline>'') s))
      else None)"

definition is_digit :: "char \<Rightarrow> bool" where
  "is_digit c = (48 \<le> (of_char c :: nat) \<and> (of_char c :: nat) \<le> 57)"

definition parse_nat :: "string \<Rightarrow> nat option" where
  "parse_nat s =
     (if s \<noteq> [] \<and> list_all is_digit s
      then Some (foldl (\<lambda>a c. 10 * a + (of_char c - 48)) 0 s) else None)"

text \<open>
  A field of the header: the text between a label and the end of its line, and the text
  after that line. The content length is followed by a unit.
\<close>

definition parse_field :: "string \<Rightarrow> string \<Rightarrow> (string \<times> string) option" where
  "parse_field label s = Option.bind (strip_prefix label s) split_line"

definition parse_length_field :: "string \<Rightarrow> nat option" where
  "parse_length_field length_field =
     Option.bind (strip_suffix suffix_characters length_field) parse_nat"

text \<open>
  Modelled from the spec: the parser of the header fields of a report, which the
  repository does not contain; the spec names it in the round-trip property
  (formatting a successful result and then parsing out the header fields). It reads the
  report line by line, in the order in which the header is written: the source URL, the
  pages processed, the content length, the extraction method, and the content section
  after its label. The result is the url, the pages processed, the content length, the
  method and the content. Its steps are \<open>strip_prefix\<close>, \<open>strip_suffix\<close>, \<open>split_line\<close>,
  \<open>parse_nat\<close>, \<open>parse_field\<close> and \<open>parse_length_field\<close> above.
\<close>

definition parse_report :: "string \<Rightarrow> (string \<times> nat \<times> nat \<times> string \<times> string) option" where
  "parse_report s =
     Option.bind (parse_field label_source s) (\<lambda>(url, s2).
     Option.bind (parse_field label_pages s2) (\<lambda>(pages_field, s3).
     Option.bind (parse_nat pages_field) (\<lambda>pages.
     Option.bind (parse_field label_length s3) (\<lambda>(length_field, s4).
     Option.bind (parse_length_field length_field) (\<lambda>len.
     Option.bind (parse_field label_method s4) (\<lambda>(method_field, s5).
     Option.bind (strip_prefix label_content s5) (\<lambda>content_section.
       Some (url, pages, len, method_field, content_section))))))))"


text \<open>
  Two documents and two URLs for the round trip: the second URL holds line breaks, and
  the page text of the first document holds the lines of a header.
\<close>

definition header_lines_page_text :: string where
  "header_lines_page_text =
     ''y\<newline>Pages Processed: 1\<newline>Content Length: 18 characters\<newline>Extraction Method: pdfplumber\<newline>=== Text Content ===\<newline>\<newline>\<newline>--- Page 1 ---\<newline>\<newline>x''"

definition line_break_url :: string where
  "line_break_url =
     ''https://example.org/a.pdf\<newline>Pages Processed: 2\<newline>Content Length: 138 characters\<newline>Extraction Method: pdfplumber\<newline>=== Text Content ===\<newline>\<newline>\<newline>--- Page 1 ---\<newline>\<newline>y''"

definition env_header_lines :: env where
  "env_header_lines =
     example_env (Inr (response_200 example_body))
       (Inr [Inr (Some header_lines_page_text)]) (Inr [Inr (Some header_lines_page_text)])"

definition env_one_page :: env where
  "env_one_page =
     example_env (Inr (response_200 example_body))
       (Inr [Inr (Some ''x'')]) (Inr [Inr (Some ''x'')])"

subsection \<open>The pages that get a marker\<close>

text \<open>
  The numbers and texts of the pages for which the extractors append a marker: the pages
  whose \<^verbatim>\<open>extract_text()\<close> returns a text that is not blank.
\<close>

fun kept_pages :: "nat \<Rightarrow> page list \<Rightarrow> (nat \<times> string) list" where
  "kept_pages page_num [] = []"
| "kept_pages page_num (Inr (Some page_text) # pages) =
     (if py_strip page_text \<noteq> []
      then (page_num, page_text) # kept_pages (page_num + 1) pages
      else kept_pages (page_num + 1) pages)"
| "kept_pages page_num (page # pages) = kept_pages (page_num + 1) pages"

fun blocks_of :: "(nat \<times> string) list \<Rightarrow> string list" where
  "blocks_of [] = []"
| "blocks_of ((page_num, page_text) # kept) = page_marker page_num # page_text # blocks_of kept"

subsection \<open>The result built from an extracted text\<close>

text \<open>
  What \<open>process_pdf_from_url\<close> returns once an extractor has given its text: the failure
  \<^verbatim>\<open>No text could be extracted from PDF\<close> for a blank text, and otherwise the success
  with the text, its length and the count of \<^verbatim>\<open>--- Page\<close> in it.
\<close>

definition extraction_result :: "string \<Rightarrow> pyval \<Rightarrow> string \<Rightarrow> pipeline_result" where
  "extraction_result url method extracted_text =
     (if py_strip extracted_text = []
      then \<lparr>success = False, text' = [],
            error = Some ''No text could be extracted from PDF'',
            metadata = \<lparr>md_url = url, md_method = method,
                        pages_processed = 0, content_length = 0\<rparr>\<rparr>
      else \<lparr>success = True, text' = extracted_text, error = None,
            metadata = \<lparr>md_url = url, md_method = method,
                        pages_processed = py_count extracted_text ''--- Page'',
                        content_length = length extracted_text\<rparr>\<rparr>)"

subsection \<open>A redirect answered to the probe\<close>

text \<open>
  \<^verbatim>\<open>session.head\<close> does not follow redirects, and \<^verbatim>\<open>raise_for_status\<close> of
  \<^verbatim>\<open>requests\<close> raises for the status codes 400 to 599 only: the answer 301 comes back
  as a response on which \<^verbatim>\<open>raise_for_status\<close> raises nothing.
\<close>

definition response_301 :: response where
  "response_301 =
     \<lparr>status_code = 301,
      headers = [''location'' \<mapsto> ''https://example.org/b.pdf''],
      raise_for_status = None,
      content = Inr []\<rparr>"

definition env_redirect :: env where
  "env_redirect = example_env (Inr response_301) (Inr three_pages) (Inr three_pages)"

section \<open>Properties\<close>

subsection \<open>The result envelope\<close>

lemma process_cases:
  "process_pdf_from_url e url method = (r, ev) \<Longrightarrow>
     (r = (initial_result url method)\<lparr>error := Some ''Failed to download PDF''\<rparr>)
   \<or> (\<exists>ex. r = (initial_result url method)
               \<lparr>error := Some (''Unexpected error processing PDF: '' @ str_exn ex)\<rparr>)
   \<or> (r = (initial_result url method)\<lparr>error := Some ''No text could be extracted from PDF''\<rparr>)
   \<or> (\<exists>t. py_strip t \<noteq> [] \<and>
          r = (initial_result url method)
                \<lparr>success := True, text' := t,
                 metadata := (metadata (initial_result url method))
                   \<lparr>content_length := length t,
                    pages_processed := py_count t ''--- Page''\<rparr>\<rparr>)"
  unfolding process_pdf_from_url_def process_pdf_from_url_try_def Let_def
  by (auto split: prod.splits sum.splits if_splits)

lemma py_strip_Nil [simp]: "py_strip [] = []"
  by (simp add: py_strip_def)

text \<open>
  C1. Every result of \<open>process_pdf_from_url\<close> is a well-formed envelope: when \<open>success\<close>
  is true, \<open>error\<close> is \<^verbatim>\<open>None\<close> and the text is not empty; when \<open>success\<close> is false, the
  text is empty and \<open>error\<close> is a string. The theorem covers every exit of the function: a
  failed download, an empty extraction, the \<^verbatim>\<open>except\<close> branch and success.
\<close>

theorem envelope_invariant:
  "(success (fst (process_pdf_from_url e url method)) \<longrightarrow>
      error (fst (process_pdf_from_url e url method)) = None \<and>
      text' (fst (process_pdf_from_url e url method)) \<noteq> [])
   \<and> (\<not> success (fst (process_pdf_from_url e url method)) \<longrightarrow>
      text' (fst (process_pdf_from_url e url method)) = [] \<and>
      (\<exists>msg. error (fst (process_pdf_from_url e url method)) = Some msg))"
proof -
  obtain r ev where r: "process_pdf_from_url e url method = (r, ev)"
    by (cases "process_pdf_from_url e url method")
  from process_cases [OF r] show ?thesis
    unfolding r by (auto simp: initial_result_def)
qed

theorem envelope_invariant_witness:
  "success (fst (process_pdf_from_url env_three_pages example_url (PyStr ''pdfplumber'')))
   \<and> error (fst (process_pdf_from_url env_three_pages example_url (PyStr ''pdfplumber''))) = None
   \<and> text' (fst (process_pdf_from_url env_three_pages example_url (PyStr ''pdfplumber''))) \<noteq> []"
proof -
  have s: "success (fst (process_pdf_from_url env_three_pages example_url (PyStr ''pdfplumber'')))"
    by code_simp
  with envelope_invariant [of env_three_pages example_url "PyStr ''pdfplumber''"]
  show ?thesis by blast
qed

subsection \<open>Download failures\<close>

lemma download_pdf_invalid:
  "invalid_url e url \<Longrightarrow> download_pdf e url timeout = (None, [])"
  unfolding invalid_url_def download_pdf_def
  by (auto split: sum.splits prod.splits)

lemma download_pdf_network_error:
  "\<not> invalid_url e url \<Longrightarrow> network_error e url timeout \<Longrightarrow>
   download_pdf e url timeout = (None, [HttpGet url timeout])"
  unfolding invalid_url_def network_error_def download_pdf_def
  by (auto split: sum.splits prod.splits option.splits)

lemma download_pdf_content:
  "\<not> invalid_url e url \<Longrightarrow> \<not> network_error e url timeout \<Longrightarrow>
   \<exists>resp body. session_get e url timeout = Inr resp \<and> content resp = Inr body \<and>
     download_pdf e url timeout = (Some body, [HttpGet url timeout])"
  unfolding invalid_url_def network_error_def download_pdf_def
  by (auto split: sum.splits prod.splits option.splits)

lemma process_no_content:
  "not_pdf_content (fst (download_pdf e url 30)) \<Longrightarrow>
   process_pdf_from_url e url method = (download_failed url method, snd (download_pdf e url 30))"
proof -
  assume n: "not_pdf_content (fst (download_pdf e url 30))"
  obtain pdf_content ev1 where d: "download_pdf e url 30 = (pdf_content, ev1)"
    by (cases "download_pdf e url 30")
  with n have "not_pdf_content pdf_content" by simp
  then show ?thesis
    unfolding process_pdf_from_url_def process_pdf_from_url_try_def Let_def d
      download_failed_def initial_result_def
    by simp
qed

lemma process_with_content:
  "\<not> not_pdf_content (fst (download_pdf e url 30)) \<Longrightarrow>
   fst (process_pdf_from_url e url method) \<noteq> download_failed url method"
proof -
  assume c: "\<not> not_pdf_content (fst (download_pdf e url 30))"
  obtain r ev where r: "process_pdf_from_url e url method = (r, ev)"
    by (cases "process_pdf_from_url e url method")
  have "error r \<noteq> Some ''Failed to download PDF''"
    using r c
    unfolding process_pdf_from_url_def process_pdf_from_url_try_def Let_def initial_result_def
    by (auto split: prod.splits sum.splits if_splits)
  then show ?thesis
    unfolding r by (auto simp: download_failed_def)
qed

text \<open>
  C5, amended. \<open>process_pdf_from_url\<close> returns the envelope with \<open>success\<close> false, empty
  text, the error \<^verbatim>\<open>Failed to download PDF\<close> and the metadata \<open>url\<close>, \<open>method\<close>, 0 and 0
  exactly when \<open>download_pdf\<close> returns \<^verbatim>\<open>None\<close> or an empty body. For a URL without a scheme
  or without a network location no request is made; when the request, the status check
  or the reading of the body raises, the failure follows exactly one GET request.
\<close>

theorem download_failure_envelope:
  "(fst (process_pdf_from_url e url method) = download_failed url method \<longleftrightarrow>
      fst (download_pdf e url 30) = None \<or> fst (download_pdf e url 30) = Some [])
   \<and> (invalid_url e url \<longrightarrow>
        process_pdf_from_url e url method = (download_failed url method, []))
   \<and> (\<not> invalid_url e url \<and> network_error e url 30 \<longrightarrow>
        process_pdf_from_url e url method = (download_failed url method, [HttpGet url 30]))"
proof (intro conjI impI)
  have n: "not_pdf_content (fst (download_pdf e url 30)) \<longleftrightarrow>
           fst (download_pdf e url 30) = None \<or> fst (download_pdf e url 30) = Some []"
    by (cases "fst (download_pdf e url 30)") auto
  show "fst (process_pdf_from_url e url method) = download_failed url method \<longleftrightarrow>
        fst (download_pdf e url 30) = None \<or> fst (download_pdf e url 30) = Some []"
    using process_no_content [of e url "method"] process_with_content [of e url "method"] n
    by (cases "not_pdf_content (fst (download_pdf e url 30))") auto
next
  assume "invalid_url e url"
  then have "download_pdf e url 30 = (None, [])"
    by (rule download_pdf_invalid)
  then show "process_pdf_from_url e url method = (download_failed url method, [])"
    using process_no_content [of e url "method"] by simp
next
  assume "\<not> invalid_url e url \<and> network_error e url 30"
  then have "download_pdf e url 30 = (None, [HttpGet url 30])"
    by (simp add: download_pdf_network_error)
  then show "process_pdf_from_url e url method = (download_failed url method, [HttpGet url 30])"
    using process_no_content [of e url "method"] by simp
qed

theorem download_failure_envelope_witness:
  "invalid_url env_timeout ''a.pdf''
   \<and> process_pdf_from_url env_timeout ''a.pdf'' (PyStr ''pypdf2'')
       = (download_failed ''a.pdf'' (PyStr ''pypdf2''), [])
   \<and> \<not> invalid_url env_timeout example_url \<and> network_error env_timeout example_url 30
   \<and> process_pdf_from_url env_timeout example_url (PyStr ''pypdf2'')
       = (download_failed example_url (PyStr ''pypdf2''), [HttpGet example_url 30])
   \<and> fst (download_pdf env_timeout example_url 30) = None"
proof -
  have a: "invalid_url env_timeout ''a.pdf''"
    by (simp add: invalid_url_def env_timeout_def example_env_def)
  have b: "\<not> invalid_url env_timeout example_url"
    by (simp add: invalid_url_def env_timeout_def example_env_def example_url_def)
  have c: "network_error env_timeout example_url 30"
    by (simp add: network_error_def env_timeout_def example_env_def)
  have d: "fst (download_pdf env_timeout example_url 30) = None"
    by (simp add: download_pdf_def env_timeout_def example_env_def example_url_def)
  show ?thesis
    using a b c d
      download_failure_envelope [of env_timeout "''a.pdf''" "PyStr ''pypdf2''"]
      download_failure_envelope [of env_timeout example_url "PyStr ''pypdf2''"]
    by simp
qed

text \<open>
  The claim as stated fails where the server answers with an empty body: \<open>download_pdf\<close>
  returns that body, not \<^verbatim>\<open>None\<close>, and the result is the download failure all the same.
\<close>

theorem download_failure_counterexample:
  "fst (download_pdf env_empty_body example_url 30) = Some []
   \<and> fst (process_pdf_from_url env_empty_body example_url (PyStr ''pdfplumber''))
       = download_failed example_url (PyStr ''pdfplumber'')"
  by (simp add: process_no_content download_pdf_def env_empty_body_def example_env_def
      example_url_def response_200_def)

subsection \<open>Malformed documents\<close>

lemma py_count_Nil: "py_count [] ''--- Page'' = 0"
  by (simp add: py_count.simps)

text \<open>
  C6, amended. When the library chosen cannot open the bytes, the extractor returns the
  empty text, in which no page is counted. When those bytes are not empty and are the
  body that \<open>download_pdf\<close> returned, \<open>process_pdf_from_url\<close> returns the failure with the
  error \<^verbatim>\<open>No text could be extracted from PDF\<close>.
\<close>

theorem malformed_document:
  "(isl (PdfReader e pdf_content) \<longrightarrow>
      extract_text_pypdf2 e pdf_content = ([], [OpenPdfReader pdf_content]))
   \<and> (isl (pdfplumber_open e pdf_content) \<longrightarrow>
      extract_text_pdfplumber e pdf_content = ([], [OpenPdfplumber pdf_content]))
   \<and> py_count [] ''--- Page'' = 0
   \<and> (fst (download_pdf e url 30) = Some pdf_content \<and> pdf_content \<noteq> [] \<and>
        (if py_lower method = ''pdfplumber'' then isl (pdfplumber_open e pdf_content)
         else isl (PdfReader e pdf_content)) \<longrightarrow>
        fst (process_pdf_from_url e url (PyStr method))
         = \<lparr>success = False, text' = [],
            error = Some ''No text could be extracted from PDF'',
            metadata = \<lparr>md_url = url, md_method = PyStr method,
                        pages_processed = 0, content_length = 0\<rparr>\<rparr>)"
proof (intro conjI impI)
  show "py_count [] ''--- Page'' = 0" by (rule py_count_Nil)
next
  assume "isl (PdfReader e pdf_content)"
  then show "extract_text_pypdf2 e pdf_content = ([], [OpenPdfReader pdf_content])"
    by (auto simp: extract_text_pypdf2_def split: sum.splits)
next
  assume "isl (pdfplumber_open e pdf_content)"
  then show "extract_text_pdfplumber e pdf_content = ([], [OpenPdfplumber pdf_content])"
    by (auto simp: extract_text_pdfplumber_def split: sum.splits)
next
  assume a: "fst (download_pdf e url 30) = Some pdf_content \<and> pdf_content \<noteq> [] \<and>
        (if py_lower method = ''pdfplumber'' then isl (pdfplumber_open e pdf_content)
         else isl (PdfReader e pdf_content))"
  obtain ev1 where d: "download_pdf e url 30 = (Some pdf_content, ev1)"
    using a by (cases "download_pdf e url 30") auto
  show "fst (process_pdf_from_url e url (PyStr method))
         = \<lparr>success = False, text' = [],
            error = Some ''No text could be extracted from PDF'',
            metadata = \<lparr>md_url = url, md_method = PyStr method,
                        pages_processed = 0, content_length = 0\<rparr>\<rparr>"
  proof (cases "py_lower method = ''pdfplumber''")
    case True
    with a have "extract_text_pdfplumber e pdf_content = ([], [OpenPdfplumber pdf_content])"
      by (auto simp: extract_text_pdfplumber_def split: sum.splits)
    with True a show ?thesis
      unfolding process_pdf_from_url_def process_pdf_from_url_try_def Let_def d
        initial_result_def
      by simp
  next
    case False
    with a have "extract_text_pypdf2 e pdf_content = ([], [OpenPdfReader pdf_content])"
      by (auto simp: extract_text_pypdf2_def split: sum.splits)
    with False a show ?thesis
      unfolding process_pdf_from_url_def process_pdf_from_url_try_def Let_def d
        initial_result_def
      by simp
  qed
qed

theorem malformed_document_witness:
  "isl (PdfReader env_malformed example_body)
   \<and> isl (pdfplumber_open env_malformed example_body)
   \<and> extract_text_pypdf2 env_malformed example_body = ([], [OpenPdfReader example_body])
   \<and> extract_text_pdfplumber env_malformed example_body = ([], [OpenPdfplumber example_body])
   \<and> fst (download_pdf env_malformed example_url 30) = Some example_body
   \<and> example_body \<noteq> []
   \<and> error (fst (process_pdf_from_url env_malformed example_url (PyStr ''pdfplumber'')))
       = Some ''No text could be extracted from PDF''"
proof -
  have a: "isl (PdfReader env_malformed example_body)"
    by (simp add: env_malformed_def example_env_def)
  have b: "isl (pdfplumber_open env_malformed example_body)"
    by (simp add: env_malformed_def example_env_def)
  have c: "fst (download_pdf env_malformed example_url 30) = Some example_body"
    by (simp add: download_pdf_def env_malformed_def example_env_def example_url_def
        response_200_def)
  have d: "example_body \<noteq> []"
    by (simp add: example_body_def)
  have l: "py_lower ''pdfplumber'' = ''pdfplumber''"
    by code_simp
  show ?thesis
    using a b c d l
      malformed_document [of env_malformed example_body example_url "''pdfplumber''"]
    by simp
qed

text \<open>
  The claim as stated fails on the empty byte sequence, which no library opens: when the
  server answers with it, the result is the download failure, and no extractor is called.
\<close>

theorem malformed_document_counterexample:
  "isl (PdfReader env_empty_body []) \<and> isl (pdfplumber_open env_empty_body [])
   \<and> download_pdf env_empty_body example_url 30 = (Some [], [HttpGet example_url 30])
   \<and> process_pdf_from_url env_empty_body example_url (PyStr ''pdfplumber'')
       = (\<lparr>success = False, text' = [], error = Some ''Failed to download PDF'',
           metadata = \<lparr>md_url = example_url, md_method = PyStr ''pdfplumber'',
                       pages_processed = 0, content_length = 0\<rparr>\<rparr>,
          [HttpGet example_url 30])"
proof -
  have d: "download_pdf env_empty_body example_url 30 = (Some [], [HttpGet example_url 30])"
    by (simp add: download_pdf_def env_empty_body_def example_env_def example_url_def
        response_200_def)
  then have "not_pdf_content (fst (download_pdf env_empty_body example_url 30))"
    by simp
  from process_no_content [OF this] d show ?thesis
    by (simp add: download_failed_def env_empty_body_def example_env_def)
qed

subsection \<open>The metadata probe\<close>

text \<open>
  C9, amended. \<open>get_pdf_metadata\<close> makes one HEAD request and no other call. It returns
  the probe record with the three headers, the status code and the url when the request
  and \<^verbatim>\<open>raise_for_status\<close> pass, whatever the status code is, and the record of \<open>error\<close>
  and \<open>url\<close> when either raises: an exception always becomes a value.
\<close>

theorem get_pdf_metadata_total:
  "snd (get_pdf_metadata e url) = [HttpHead url 10]
   \<and> ((\<exists>resp. session_head e url 10 = Inr resp \<and> raise_for_status resp = None \<and>
          fst (get_pdf_metadata e url)
            = Probe (headers_get resp ''content-type'') (headers_get resp ''content-length'')
                (headers_get resp ''last-modified'') (status_code resp) url)
       \<or> (\<exists>ex. (session_head e url 10 = Inl ex \<or>
                (\<exists>resp. session_head e url 10 = Inr resp \<and> raise_for_status resp = Some ex))
              \<and> fst (get_pdf_metadata e url) = ProbeError (str_exn ex) url))"
  unfolding get_pdf_metadata_def
  by (auto split: sum.splits option.splits)

lemma get_pdf_metadata_examples:
  "get_pdf_metadata env_three_pages example_url
     = (Probe ''application/pdf'' [] [] 200 example_url, [HttpHead example_url 10])"
  "get_pdf_metadata env_not_found example_url
     = (ProbeError ''404 Client Error'' example_url, [HttpHead example_url 10])"
  "get_pdf_metadata env_timeout example_url
     = (ProbeError ''Read timed out'' example_url, [HttpHead example_url 10])"
  by (simp_all add: get_pdf_metadata_def env_three_pages_def env_not_found_def env_timeout_def
      example_env_def response_200_def response_404_def headers_get_def)

text \<open>
  The claim as stated fails for a status outside 2xx that \<^verbatim>\<open>raise_for_status\<close> accepts:
  the answer 301 is returned as a probe record, not as the record of \<open>error\<close> and \<open>url\<close>.
\<close>

theorem get_pdf_metadata_counterexample:
  "session_head env_redirect example_url 10 = Inr response_301
   \<and> status_code response_301 = 301
   \<and> raise_for_status response_301 = None
   \<and> get_pdf_metadata env_redirect example_url
       = (Probe [] [] [] 301 example_url, [HttpHead example_url 10])"
  by (simp add: get_pdf_metadata_def env_redirect_def example_env_def response_301_def
      headers_get_def)

subsection \<open>The tool function\<close>

lemma download_and_parse_pdf_invalid:
  "url = PyStr [] \<or> \<not> isinstance_str url \<Longrightarrow>
   download_and_parse_pdf e url extraction_method = (''Error: Invalid URL provided'', [])"
  unfolding download_and_parse_pdf_def download_and_parse_pdf_try_def
  by (cases url) auto

lemma download_and_parse_pdf_valid:
  "s \<noteq> [] \<Longrightarrow>
   download_and_parse_pdf e (PyStr s) extraction_method =
     (let extraction_method' =
            (if extraction_method = PyStr ''pdfplumber'' \<or> extraction_method = PyStr ''pypdf2''
             then extraction_method else PyStr ''pdfplumber'');
          result = fst (process_pdf_from_url e s extraction_method')
      in (if success result then report_header (metadata result) @ text' result
          else ''Failed to process PDF: '' @ str_error (error result),
          snd (process_pdf_from_url e s extraction_method')))"
  unfolding download_and_parse_pdf_def download_and_parse_pdf_try_def Let_def
  by (auto split: prod.splits)

text \<open>
  C10. Called with the empty string, or with a value that is not a string, as url,
  \<open>download_and_parse_pdf\<close> returns \<^verbatim>\<open>Error: Invalid URL provided\<close> and has made no
  request and opened no document. That text begins neither with
  \<^verbatim>\<open>Failed to process PDF: \<close> nor with \<^verbatim>\<open>Unexpected error in download_and_parse_pdf: \<close>.
\<close>

theorem invalid_url_guard:
  "url = PyStr [] \<or> \<not> isinstance_str url \<Longrightarrow>
   download_and_parse_pdf e url extraction_method = (''Error: Invalid URL provided'', [])
   \<and> \<not> prefix ''Failed to process PDF: '' (fst (download_and_parse_pdf e url extraction_method))
   \<and> \<not> prefix ''Unexpected error in download_and_parse_pdf: ''
          (fst (download_and_parse_pdf e url extraction_method))"
  by (simp add: download_and_parse_pdf_invalid)

theorem invalid_url_guard_witness:
  "download_and_parse_pdf env_three_pages (PyStr []) (PyStr ''pdfplumber'')
     = (''Error: Invalid URL provided'', [])
   \<and> \<not> isinstance_str PyNone
   \<and> download_and_parse_pdf env_three_pages PyNone (PyStr ''pdfplumber'')
     = (''Error: Invalid URL provided'', [])
   \<and> \<not> isinstance_str (PyInt 7)
   \<and> download_and_parse_pdf env_three_pages (PyInt 7) (PyStr ''pdfplumber'')
     = (''Error: Invalid URL provided'', [])"
  using invalid_url_guard [of "PyStr []" env_three_pages "PyStr ''pdfplumber''"]
    invalid_url_guard [of PyNone env_three_pages "PyStr ''pdfplumber''"]
    invalid_url_guard [of "PyInt 7" env_three_pages "PyStr ''pdfplumber''"]
  by simp

lemma report_header_not_failure:
  "\<not> prefix ''Failed to process PDF: '' (report_header m @ t)"
  "\<not> prefix ''Unexpected error in download_and_parse_pdf: '' (report_header m @ t)"
  "report_header m @ t \<noteq> ''Error: Invalid URL provided''"
  by (simp_all add: report_header_def)

text \<open>
  C7, amended. \<open>download_and_parse_pdf\<close> always returns a text, and it is one of four:
  \<^verbatim>\<open>Error: Invalid URL provided\<close>, when the url is the empty string or not a string; the
  report, when the pipeline succeeds; \<^verbatim>\<open>Failed to process PDF: Failed to download PDF\<close>,
  when the download gives no content (a URL without scheme or host, a network failure);
  \<^verbatim>\<open>Failed to process PDF: No text could be extracted from PDF\<close>, when the extraction is
  blank. The \<^verbatim>\<open>except\<close> clause of the function is never reached, so no output begins
  with \<^verbatim>\<open>Unexpected error in download_and_parse_pdf: \<close>.
\<close>

theorem download_and_parse_pdf_outputs:
  "(\<exists>out. fst (download_and_parse_pdf_try e url extraction_method) = Inr out)
   \<and> \<not> prefix ''Unexpected error in download_and_parse_pdf: ''
          (fst (download_and_parse_pdf e url extraction_method))
   \<and> (((url = PyStr [] \<or> \<not> isinstance_str url) \<and>
        fst (download_and_parse_pdf e url extraction_method) = ''Error: Invalid URL provided'')
      \<or> (\<exists>s chosen.
            url = PyStr s \<and> s \<noteq> [] \<and>
            chosen = (if extraction_method = PyStr ''pdfplumber'' \<or>
                         extraction_method = PyStr ''pypdf2''
                      then extraction_method else PyStr ''pdfplumber'') \<and>
            ((success (fst (process_pdf_from_url e s chosen)) \<and>
              fst (download_and_parse_pdf e url extraction_method)
                = report_header (metadata (fst (process_pdf_from_url e s chosen)))
                  @ text' (fst (process_pdf_from_url e s chosen)))
             \<or> (not_pdf_content (fst (download_pdf e s 30)) \<and>
                 fst (download_and_parse_pdf e url extraction_method)
                   = ''Failed to process PDF: Failed to download PDF'')
             \<or> (fst (process_pdf_from_url e s chosen)
                   = (initial_result s chosen)
                       \<lparr>error := Some ''No text could be extracted from PDF''\<rparr> \<and>
                 fst (download_and_parse_pdf e url extraction_method)
                   = ''Failed to process PDF: No text could be extracted from PDF''))))"
proof (cases "url = PyStr [] \<or> \<not> isinstance_str url")
  case True
  then show ?thesis
    by (simp add: download_and_parse_pdf_invalid download_and_parse_pdf_try_def) auto
next
  case False
  then obtain s where s: "url = PyStr s" "s \<noteq> []"
    by (cases url) auto
  define chosen where
    "chosen = (if extraction_method = PyStr ''pdfplumber'' \<or> extraction_method = PyStr ''pypdf2''
               then extraction_method else PyStr ''pdfplumber'')"
  have "\<exists>m. chosen = PyStr m"
    unfolding chosen_def by auto
  then obtain m where m: "chosen = PyStr m" ..
  obtain r ev where r: "process_pdf_from_url e s chosen = (r, ev)"
    by (cases "process_pdf_from_url e s chosen")
  have out: "fst (download_and_parse_pdf e url extraction_method)
      = (if success r then report_header (metadata r) @ text' r
         else ''Failed to process PDF: '' @ str_error (error r))"
    using s r by (simp add: download_and_parse_pdf_valid chosen_def Let_def)
  have body: "\<exists>out. fst (download_and_parse_pdf_try e url extraction_method) = Inr out"
    using s by (auto simp: download_and_parse_pdf_try_def Let_def split: prod.splits)
  have shape:
    "(success r \<and> fst (download_and_parse_pdf e url extraction_method)
          = report_header (metadata r) @ text' r)
     \<or> (not_pdf_content (fst (download_pdf e s 30)) \<and>
         fst (download_and_parse_pdf e url extraction_method)
           = ''Failed to process PDF: Failed to download PDF'')
     \<or> (r = (initial_result s chosen)\<lparr>error := Some ''No text could be extracted from PDF''\<rparr> \<and>
         fst (download_and_parse_pdf e url extraction_method)
           = ''Failed to process PDF: No text could be extracted from PDF'')"
  proof (cases "not_pdf_content (fst (download_pdf e s 30))")
    case True
    from process_no_content [OF this, of chosen] r
    have "r = download_failed s chosen" by simp
    with True out show ?thesis
      by (simp add: download_failed_def)
  next
    case False
    then show ?thesis
      using r out unfolding m
      unfolding process_pdf_from_url_def process_pdf_from_url_try_def Let_def initial_result_def
      by (auto split: prod.splits if_splits)
  qed
  have no_unexpected:
    "\<not> prefix ''Unexpected error in download_and_parse_pdf: ''
          (fst (download_and_parse_pdf e url extraction_method))"
    using shape by (auto simp: report_header_not_failure)
  have valid: "\<exists>s chosen.
            url = PyStr s \<and> s \<noteq> [] \<and>
            chosen = (if extraction_method = PyStr ''pdfplumber'' \<or>
                         extraction_method = PyStr ''pypdf2''
                      then extraction_method else PyStr ''pdfplumber'') \<and>
            ((success (fst (process_pdf_from_url e s chosen)) \<and>
              fst (download_and_parse_pdf e url extraction_method)
                = report_header (metadata (fst (process_pdf_from_url e s chosen)))
                  @ text' (fst (process_pdf_from_url e s chosen)))
             \<or> (not_pdf_content (fst (download_pdf e s 30)) \<and>
                 fst (download_and_parse_pdf e url extraction_method)
                   = ''Failed to process PDF: Failed to download PDF'')
             \<or> (fst (process_pdf_from_url e s chosen)
                   = (initial_result s chosen)
                       \<lparr>error := Some ''No text could be extracted from PDF''\<rparr> \<and>
                 fst (download_and_parse_pdf e url extraction_method)
                   = ''Failed to process PDF: No text could be extracted from PDF''))"
  proof (intro exI conjI)
    show "url = PyStr s" by fact
    show "s \<noteq> []" by fact
    show "chosen = (if extraction_method = PyStr ''pdfplumber'' \<or>
                         extraction_method = PyStr ''pypdf2''
                      then extraction_method else PyStr ''pdfplumber'')"
      by (rule chosen_def)
    show "(success (fst (process_pdf_from_url e s chosen)) \<and>
              fst (download_and_parse_pdf e url extraction_method)
                = report_header (metadata (fst (process_pdf_from_url e s chosen)))
                  @ text' (fst (process_pdf_from_url e s chosen)))
             \<or> (not_pdf_content (fst (download_pdf e s 30)) \<and>
                 fst (download_and_parse_pdf e url extraction_method)
                   = ''Failed to process PDF: Failed to download PDF'')
             \<or> (fst (process_pdf_from_url e s chosen)
                   = (initial_result s chosen)
                       \<lparr>error := Some ''No text could be extracted from PDF''\<rparr> \<and>
                 fst (download_and_parse_pdf e url extraction_method)
                   = ''Failed to process PDF: No text could be extracted from PDF'')"
      using shape unfolding r by simp
  qed
  show ?thesis
    by (intro conjI disjI2) (fact body, fact no_unexpected, fact valid)
qed

text \<open>
  The claim as stated fails on the empty url: the output is a failure text of a third
  shape.
\<close>

theorem download_and_parse_pdf_counterexample:
  "fst (download_and_parse_pdf env_three_pages (PyStr []) (PyStr ''pdfplumber''))
     = ''Error: Invalid URL provided''
   \<and> \<not> prefix ''Failed to process PDF: ''
         (fst (download_and_parse_pdf env_three_pages (PyStr []) (PyStr ''pdfplumber'')))
   \<and> \<not> prefix ''Unexpected error in download_and_parse_pdf: ''
         (fst (download_and_parse_pdf env_three_pages (PyStr []) (PyStr ''pdfplumber'')))"
  by (simp add: download_and_parse_pdf_invalid)

theorem download_and_parse_pdf_outputs_witness:
  "(\<exists>out. fst (download_and_parse_pdf_try env_timeout (PyStr example_url) (PyStr ''bogus''))
            = Inr out)
   \<and> \<not> prefix ''Unexpected error in download_and_parse_pdf: ''
         (fst (download_and_parse_pdf env_timeout (PyStr example_url) (PyStr ''bogus'')))
   \<and> fst (download_and_parse_pdf env_timeout (PyStr example_url) (PyStr ''bogus''))
       = ''Failed to process PDF: Failed to download PDF''"
proof -
  have "fst (download_and_parse_pdf env_timeout (PyStr example_url) (PyStr ''bogus''))
       = ''Failed to process PDF: Failed to download PDF''"
    by code_simp
  with download_and_parse_pdf_outputs [of env_timeout "PyStr example_url" "PyStr ''bogus''"]
  show ?thesis by blast
qed

subsection \<open>Selection of the extractor\<close>

lemma py_lower_names:
  "py_lower ''pdfplumber'' = ''pdfplumber''"
  "py_lower ''pypdf2'' \<noteq> ''pdfplumber''"
  by code_simp+

lemma process_method_only_lowered:
  "py_lower m1 = ''pdfplumber'' \<longleftrightarrow> py_lower m2 = ''pdfplumber'' \<Longrightarrow>
   process_pdf_from_url e url (PyStr m1) =
     (case process_pdf_from_url e url (PyStr m2) of
        (r, ev) \<Rightarrow> (r\<lparr>metadata := (metadata r)\<lparr>md_method := PyStr m1\<rparr>\<rparr>, ev))"
  unfolding process_pdf_from_url_def process_pdf_from_url_try_def Let_def initial_result_def
  by (auto split: prod.splits)

lemma extract_events:
  "snd (extract_text_pdfplumber e pdf_content) = [OpenPdfplumber pdf_content]"
  "snd (extract_text_pypdf2 e pdf_content) = [OpenPdfReader pdf_content]"
  by (simp_all add: extract_text_pdfplumber_def extract_text_pypdf2_def split: sum.splits)

lemma process_runs_pdfplumber:
  assumes "fst (download_pdf e u 30) = Some pdf_content" and "pdf_content \<noteq> []"
    and "py_lower m = ''pdfplumber''"
  shows "process_pdf_from_url e u (PyStr m)
           = (extraction_result u (PyStr m) (fst (extract_text_pdfplumber e pdf_content)),
              snd (download_pdf e u 30) @ [OpenPdfplumber pdf_content])"
proof -
  obtain ev1 where d: "download_pdf e u 30 = (Some pdf_content, ev1)"
    using assms(1) by (cases "download_pdf e u 30") auto
  obtain t ev2 where x: "extract_text_pdfplumber e pdf_content = (t, ev2)"
    by (cases "extract_text_pdfplumber e pdf_content")
  with extract_events(1) [of e pdf_content] have ev2: "ev2 = [OpenPdfplumber pdf_content]"
    by simp
  show ?thesis
    unfolding process_pdf_from_url_def process_pdf_from_url_try_def Let_def d
      initial_result_def extraction_result_def
    using assms(2,3) by (simp add: x ev2)
qed

lemma process_runs_pypdf2:
  assumes "fst (download_pdf e u 30) = Some pdf_content" and "pdf_content \<noteq> []"
    and "py_lower m \<noteq> ''pdfplumber''"
  shows "process_pdf_from_url e u (PyStr m)
           = (extraction_result u (PyStr m) (fst (extract_text_pypdf2 e pdf_content)),
              snd (download_pdf e u 30) @ [OpenPdfReader pdf_content])"
proof -
  obtain ev1 where d: "download_pdf e u 30 = (Some pdf_content, ev1)"
    using assms(1) by (cases "download_pdf e u 30") auto
  obtain t ev2 where x: "extract_text_pypdf2 e pdf_content = (t, ev2)"
    by (cases "extract_text_pypdf2 e pdf_content")
  with extract_events(2) [of e pdf_content] have ev2: "ev2 = [OpenPdfReader pdf_content]"
    by simp
  show ?thesis
    unfolding process_pdf_from_url_def process_pdf_from_url_try_def Let_def d
      initial_result_def extraction_result_def
    using assms(2,3) by (simp add: x ev2)
qed

lemma process_string_method_no_exception:
  "\<exists>r. fst (process_pdf_from_url_try e u (PyStr m)) = Inr r"
  unfolding process_pdf_from_url_try_def Let_def
  by (auto split: prod.splits)

text \<open>
  C4, amended. \<open>download_and_parse_pdf\<close> replaces every method other than the two names
  \<^verbatim>\<open>pdfplumber\<close> and \<^verbatim>\<open>pypdf2\<close> by \<^verbatim>\<open>pdfplumber\<close>: the call is then the call with the
  default. \<open>process_pdf_from_url\<close> itself replaces nothing. Once the download has given a
  body that is not empty, a method string whose lower case is \<^verbatim>\<open>pdfplumber\<close> runs
  \<open>extract_text_pdfplumber\<close> on that body: the document is opened with \<^verbatim>\<open>pdfplumber\<close> and
  the result is built from the text of that extractor. Every other method string runs
  \<open>extract_text_pypdf2\<close>: the document is opened with \<^verbatim>\<open>PyPDF2\<close> and the result is built
  from the text of that extractor. The metadata keep the string as given. In neither
  function does the method string by itself make the call fail: the \<^verbatim>\<open>except\<close> clause is
  not reached for a string, and the result is the one of the call with \<^verbatim>\<open>pdfplumber\<close> or
  with \<^verbatim>\<open>pypdf2\<close>, up to the method kept in the metadata.
\<close>

theorem method_selection:
  "(extraction_method \<noteq> PyStr ''pdfplumber'' \<and> extraction_method \<noteq> PyStr ''pypdf2'' \<longrightarrow>
      download_and_parse_pdf e url extraction_method
        = download_and_parse_pdf e url (PyStr ''pdfplumber''))
   \<and> (fst (download_pdf e u 30) = Some pdf_content \<and> pdf_content \<noteq> [] \<and>
       py_lower m = ''pdfplumber'' \<longrightarrow>
        process_pdf_from_url e u (PyStr m)
          = (extraction_result u (PyStr m) (fst (extract_text_pdfplumber e pdf_content)),
             snd (download_pdf e u 30) @ [OpenPdfplumber pdf_content]))
   \<and> (fst (download_pdf e u 30) = Some pdf_content \<and> pdf_content \<noteq> [] \<and>
       py_lower m \<noteq> ''pdfplumber'' \<longrightarrow>
        process_pdf_from_url e u (PyStr m)
          = (extraction_result u (PyStr m) (fst (extract_text_pypdf2 e pdf_content)),
             snd (download_pdf e u 30) @ [OpenPdfReader pdf_content]))
   \<and> (\<exists>r. fst (process_pdf_from_url_try e u (PyStr m)) = Inr r)
   \<and> (py_lower m \<noteq> ''pdfplumber'' \<longrightarrow>
        process_pdf_from_url e u (PyStr m) =
          (case process_pdf_from_url e u (PyStr ''pypdf2'') of
             (r, ev) \<Rightarrow> (r\<lparr>metadata := (metadata r)\<lparr>md_method := PyStr m\<rparr>\<rparr>, ev)))
   \<and> (py_lower m = ''pdfplumber'' \<longrightarrow>
        process_pdf_from_url e u (PyStr m) =
          (case process_pdf_from_url e u (PyStr ''pdfplumber'') of
             (r, ev) \<Rightarrow> (r\<lparr>metadata := (metadata r)\<lparr>md_method := PyStr m\<rparr>\<rparr>, ev)))"
proof (intro conjI impI)
  assume "extraction_method \<noteq> PyStr ''pdfplumber'' \<and> extraction_method \<noteq> PyStr ''pypdf2''"
  then show "download_and_parse_pdf e url extraction_method
        = download_and_parse_pdf e url (PyStr ''pdfplumber'')"
    unfolding download_and_parse_pdf_def download_and_parse_pdf_try_def by simp
next
  assume "fst (download_pdf e u 30) = Some pdf_content \<and> pdf_content \<noteq> [] \<and>
       py_lower m = ''pdfplumber''"
  then show "process_pdf_from_url e u (PyStr m)
          = (extraction_result u (PyStr m) (fst (extract_text_pdfplumber e pdf_content)),
             snd (download_pdf e u 30) @ [OpenPdfplumber pdf_content])"
    by (intro process_runs_pdfplumber) simp_all
next
  assume "fst (download_pdf e u 30) = Some pdf_content \<and> pdf_content \<noteq> [] \<and>
       py_lower m \<noteq> ''pdfplumber''"
  then show "process_pdf_from_url e u (PyStr m)
          = (extraction_result u (PyStr m) (fst (extract_text_pypdf2 e pdf_content)),
             snd (download_pdf e u 30) @ [OpenPdfReader pdf_content])"
    by (intro process_runs_pypdf2) simp_all
next
  show "\<exists>r. fst (process_pdf_from_url_try e u (PyStr m)) = Inr r"
    by (rule process_string_method_no_exception)
next
  assume "py_lower m \<noteq> ''pdfplumber''"
  then show "process_pdf_from_url e u (PyStr m) =
          (case process_pdf_from_url e u (PyStr ''pypdf2'') of
             (r, ev) \<Rightarrow> (r\<lparr>metadata := (metadata r)\<lparr>md_method := PyStr m\<rparr>\<rparr>, ev))"
    by (intro process_method_only_lowered) (simp add: py_lower_names)
next
  assume "py_lower m = ''pdfplumber''"
  then show "process_pdf_from_url e u (PyStr m) =
          (case process_pdf_from_url e u (PyStr ''pdfplumber'') of
             (r, ev) \<Rightarrow> (r\<lparr>metadata := (metadata r)\<lparr>md_method := PyStr m\<rparr>\<rparr>, ev))"
    by (intro process_method_only_lowered) (simp add: py_lower_names)
qed

theorem method_selection_witness:
  "PyStr ''bogus'' \<noteq> PyStr ''pdfplumber'' \<and> PyStr ''bogus'' \<noteq> PyStr ''pypdf2''
   \<and> download_and_parse_pdf env_plumber_only (PyStr example_url) (PyStr ''bogus'')
       = download_and_parse_pdf env_plumber_only (PyStr example_url) (PyStr ''pdfplumber'')
   \<and> fst (download_pdf env_plumber_only example_url 30) = Some example_body
   \<and> example_body \<noteq> []
   \<and> py_lower ''bogus'' \<noteq> ''pdfplumber''
   \<and> process_pdf_from_url env_plumber_only example_url (PyStr ''bogus'')
       = (extraction_result example_url (PyStr ''bogus'')
            (fst (extract_text_pypdf2 env_plumber_only example_body)),
          snd (download_pdf env_plumber_only example_url 30) @ [OpenPdfReader example_body])
   \<and> process_pdf_from_url env_plumber_only example_url (PyStr ''bogus'') =
       (case process_pdf_from_url env_plumber_only example_url (PyStr ''pypdf2'') of
          (r, ev) \<Rightarrow> (r\<lparr>metadata := (metadata r)\<lparr>md_method := PyStr ''bogus''\<rparr>\<rparr>, ev))
   \<and> py_lower ''PdfPlumber'' = ''pdfplumber''
   \<and> process_pdf_from_url env_plumber_only example_url (PyStr ''PdfPlumber'')
       = (extraction_result example_url (PyStr ''PdfPlumber'')
            (fst (extract_text_pdfplumber env_plumber_only example_body)),
          snd (download_pdf env_plumber_only example_url 30) @ [OpenPdfplumber example_body])
   \<and> process_pdf_from_url env_plumber_only example_url (PyStr ''PdfPlumber'') =
       (case process_pdf_from_url env_plumber_only example_url (PyStr ''pdfplumber'') of
          (r, ev) \<Rightarrow> (r\<lparr>metadata := (metadata r)\<lparr>md_method := PyStr ''PdfPlumber''\<rparr>\<rparr>, ev))"
proof -
  have a: "py_lower ''bogus'' \<noteq> ''pdfplumber''" by code_simp
  have b: "py_lower ''PdfPlumber'' = ''pdfplumber''" by code_simp
  have c: "fst (download_pdf env_plumber_only example_url 30) = Some example_body"
    by (simp add: download_pdf_def env_plumber_only_def example_env_def example_url_def
        response_200_def)
  have d: "example_body \<noteq> []"
    by (simp add: example_body_def)
  note bogus =
    method_selection [where extraction_method = "PyStr ''bogus''" and e = env_plumber_only
      and url = "PyStr example_url" and u = example_url and pdf_content = example_body
      and m = "''bogus''"]
  note mixed_case =
    method_selection [where extraction_method = "PyStr ''bogus''" and e = env_plumber_only
      and url = "PyStr example_url" and u = example_url and pdf_content = example_body
      and m = "''PdfPlumber''"]
  have f1: "download_and_parse_pdf env_plumber_only (PyStr example_url) (PyStr ''bogus'')
       = download_and_parse_pdf env_plumber_only (PyStr example_url) (PyStr ''pdfplumber'')"
    by (rule bogus [THEN conjunct1, THEN mp]) simp
  have f2: "process_pdf_from_url env_plumber_only example_url (PyStr ''bogus'')
       = (extraction_result example_url (PyStr ''bogus'')
            (fst (extract_text_pypdf2 env_plumber_only example_body)),
          snd (download_pdf env_plumber_only example_url 30) @ [OpenPdfReader example_body])"
    by (rule bogus [THEN conjunct2, THEN conjunct2, THEN conjunct1, THEN mp])
      (simp add: a c d)
  have f3: "process_pdf_from_url env_plumber_only example_url (PyStr ''bogus'') =
       (case process_pdf_from_url env_plumber_only example_url (PyStr ''pypdf2'') of
          (r, ev) \<Rightarrow> (r\<lparr>metadata := (metadata r)\<lparr>md_method := PyStr ''bogus''\<rparr>\<rparr>, ev))"
    by (rule bogus [THEN conjunct2, THEN conjunct2, THEN conjunct2, THEN conjunct2,
          THEN conjunct1, THEN mp]) (rule a)
  have f4: "process_pdf_from_url env_plumber_only example_url (PyStr ''PdfPlumber'')
       = (extraction_result example_url (PyStr ''PdfPlumber'')
            (fst (extract_text_pdfplumber env_plumber_only example_body)),
          snd (download_pdf env_plumber_only example_url 30) @ [OpenPdfplumber example_body])"
    by (rule mixed_case [THEN conjunct2, THEN conjunct1, THEN mp]) (simp add: b c d)
  have f5: "process_pdf_from_url env_plumber_only example_url (PyStr ''PdfPlumber'') =
       (case process_pdf_from_url env_plumber_only example_url (PyStr ''pdfplumber'') of
          (r, ev) \<Rightarrow> (r\<lparr>metadata := (metadata r)\<lparr>md_method := PyStr ''PdfPlumber''\<rparr>\<rparr>, ev))"
    by (rule mixed_case [THEN conjunct2, THEN conjunct2, THEN conjunct2, THEN conjunct2,
          THEN conjunct2, THEN mp]) (rule b)
  show ?thesis
    by (intro conjI) (fact a b c d f1 f2 f3 f4 f5 | simp)+
qed

text \<open>
  The claim as stated fails for \<open>process_pdf_from_url\<close>: with the method \<^verbatim>\<open>bogus\<close> it
  opens the document with \<^verbatim>\<open>PyPDF2\<close>, not with the default library, and here it fails
  although the default succeeds.
\<close>

theorem method_selection_counterexample:
  "snd (process_pdf_from_url env_plumber_only example_url (PyStr ''bogus''))
     = [HttpGet example_url 30, OpenPdfReader example_body]
   \<and> error (fst (process_pdf_from_url env_plumber_only example_url (PyStr ''bogus'')))
     = Some ''No text could be extracted from PDF''
   \<and> snd (process_pdf_from_url env_plumber_only example_url (PyStr ''pdfplumber''))
     = [HttpGet example_url 30, OpenPdfplumber example_body]
   \<and> success (fst (process_pdf_from_url env_plumber_only example_url (PyStr ''pdfplumber'')))"
  by code_simp

subsection \<open>Pages that cannot be read\<close>

lemma pypdf2_pages_append:
  "pypdf2_pages n (ps @ qs) acc = pypdf2_pages (n + length ps) qs (pypdf2_pages n ps acc)"
  by (induction ps arbitrary: n acc) (auto split: sum.splits option.splits)

lemma pdfplumber_pages_append:
  "pdfplumber_pages n (ps @ qs) acc
     = pdfplumber_pages (n + length ps) qs (pdfplumber_pages n ps acc)"
  by (induction ps arbitrary: n acc) (auto split: sum.splits option.splits)

lemma pypdf2_pages_text:
  "\<forall>t \<in> set ts. py_strip t \<noteq> [] \<Longrightarrow>
   pypdf2_pages n (text_pages ts) acc = acc @ page_blocks n ts"
  by (induction ts arbitrary: n acc) (auto simp: text_pages_def)

lemma pdfplumber_pages_text:
  "\<forall>t \<in> set ts. py_strip t \<noteq> [] \<Longrightarrow>
   pdfplumber_pages n (text_pages ts) acc = acc @ page_blocks n ts"
  by (induction ts arbitrary: n acc) (auto simp: text_pages_def)

lemma pypdf2_pages_one_failing:
  assumes "\<forall>t \<in> set before \<union> set after. py_strip t \<noteq> []"
  shows "pypdf2_pages 1 (text_pages before @ [Inl ex] @ text_pages after) []
           = page_blocks 1 before @ page_blocks (length before + 2) after"
proof -
  have b: "\<forall>t \<in> set before. py_strip t \<noteq> []" and a: "\<forall>t \<in> set after. py_strip t \<noteq> []"
    using assms by auto
  have l: "length (text_pages before) = length before"
    by (simp add: text_pages_def)
  show ?thesis
    by (simp add: pypdf2_pages_append pypdf2_pages_text [OF b] pypdf2_pages_text [OF a] l)
qed

lemma pdfplumber_pages_one_failing:
  assumes "\<forall>t \<in> set before \<union> set after. py_strip t \<noteq> []"
  shows "pdfplumber_pages 1 (text_pages before @ [Inl ex] @ text_pages after) []
           = page_blocks 1 before @ page_blocks (length before + 2) after"
proof -
  have b: "\<forall>t \<in> set before. py_strip t \<noteq> []" and a: "\<forall>t \<in> set after. py_strip t \<noteq> []"
    using assms by auto
  have l: "length (text_pages before) = length before"
    by (simp add: text_pages_def)
  show ?thesis
    by (simp add: pdfplumber_pages_append pdfplumber_pages_text [OF b]
        pdfplumber_pages_text [OF a] l)
qed

text \<open>
  C2, amended. Take a document in which \<open>extract_text\<close> raises on one page, page
  \<open>length before + 1\<close>, and returns on every other page a text that is not blank (not empty
  after \<^verbatim>\<open>strip()\<close>). Both extractors return the marker and the text of every other page,
  joined by line breaks in ascending page order, with the pages after the failing one
  keeping their own numbers, and nothing for the failing page.
\<close>

theorem failing_page_skipped:
  assumes "\<forall>t \<in> set before \<union> set after. py_strip t \<noteq> []"
  shows "(PdfReader e pdf_content = Inr (text_pages before @ [Inl ex] @ text_pages after) \<longrightarrow>
            fst (extract_text_pypdf2 e pdf_content)
              = py_join ''\<newline>''
                  (page_blocks 1 before @ page_blocks (length before + 2) after))
       \<and> (pdfplumber_open e pdf_content
            = Inr (text_pages before @ [Inl ex] @ text_pages after) \<longrightarrow>
            fst (extract_text_pdfplumber e pdf_content)
              = py_join ''\<newline>''
                  (page_blocks 1 before @ page_blocks (length before + 2) after))"
  using pypdf2_pages_one_failing [OF assms, of ex] pdfplumber_pages_one_failing [OF assms, of ex]
  by (simp add: extract_text_pypdf2_def extract_text_pdfplumber_def)

lemma not_blank_examples:
  "py_strip ''Hello'' \<noteq> []" "py_strip ''x y'' \<noteq> []" "py_strip '' '' = []"
  by code_simp+

theorem failing_page_skipped_witness:
  "py_strip ''Hello'' \<noteq> [] \<and> py_strip ''x y'' \<noteq> []
   \<and> fst (extract_text_pypdf2 env_three_pages example_body)
       = ''\<newline>--- Page 1 ---\<newline>\<newline>Hello\<newline>\<newline>--- Page 3 ---\<newline>\<newline>x y''
   \<and> fst (extract_text_pdfplumber env_three_pages example_body)
       = ''\<newline>--- Page 1 ---\<newline>\<newline>Hello\<newline>\<newline>--- Page 3 ---\<newline>\<newline>x y''"
proof -
  have h: "\<forall>t \<in> set [''Hello''] \<union> set [''x y'']. py_strip t \<noteq> []"
    by (simp add: not_blank_examples)
  have p: "text_pages [''Hello''] @ [Inl (PyException ''bad page'')] @ text_pages [''x y'']
             = three_pages"
    by (simp add: text_pages_def three_pages_def)
  have j: "py_join ''\<newline>'' (page_blocks 1 [''Hello''] @ page_blocks (length [''Hello''] + 2) [''x y''])
             = ''\<newline>--- Page 1 ---\<newline>\<newline>Hello\<newline>\<newline>--- Page 3 ---\<newline>\<newline>x y''"
    by code_simp
  have r: "PdfReader env_three_pages example_body = Inr three_pages"
    "pdfplumber_open env_three_pages example_body = Inr three_pages"
    by (simp_all add: env_three_pages_def example_env_def)
  from failing_page_skipped [OF h, of env_three_pages example_body "PyException ''bad page''"]
  show ?thesis
    unfolding p j using r by (simp add: not_blank_examples)
qed

text \<open>
  The claim as stated fails when a page other than the failing one holds a text that is
  not empty but blank: that page gets no marker either.
\<close>

theorem failing_page_skipped_counterexample:
  "PdfReader env_blank_page example_body = Inr [Inr (Some '' ''), Inl (PyException ''bad page'')]
   \<and> pdfplumber_open env_blank_page example_body
       = Inr [Inr (Some '' ''), Inl (PyException ''bad page'')]
   \<and> '' '' \<noteq> []
   \<and> fst (extract_text_pypdf2 env_blank_page example_body) = []
   \<and> fst (extract_text_pdfplumber env_blank_page example_body) = []
   \<and> \<not> sublist (page_marker 1) (fst (extract_text_pypdf2 env_blank_page example_body))
   \<and> \<not> sublist (page_marker 1) (fst (extract_text_pdfplumber env_blank_page example_body))"
proof -
  have r: "PdfReader env_blank_page example_body = Inr blank_page_document"
    "pdfplumber_open env_blank_page example_body = Inr blank_page_document"
    by (simp_all add: env_blank_page_def example_env_def)
  have a: "fst (extract_text_pypdf2 env_blank_page example_body) = []"
    by (simp add: extract_text_pypdf2_def r blank_page_document_def not_blank_examples)
  have b: "fst (extract_text_pdfplumber env_blank_page example_body) = []"
    by (simp add: extract_text_pdfplumber_def r blank_page_document_def not_blank_examples)
  have m: "page_marker 1 \<noteq> []"
    by (simp add: page_marker_def)
  show ?thesis
    using r a b m by (simp add: blank_page_document_def)
qed

subsection \<open>The count of pages processed\<close>

text \<open>
  C3. \<open>pages_processed\<close> is \<^verbatim>\<open>extracted_text.count("--- Page")\<close>, which also counts the
  occurrences inside the text of a page. For a document of one page whose text is
  \<^verbatim>\<open>See --- Page 2 --- below\<close>, both extractors append one marker, and
  \<open>process_pdf_from_url\<close> reports two pages processed.
\<close>

theorem pages_processed_overcount:
  "pypdf2_pages 1 marker_in_text_document []
     = [''\<newline>--- Page 1 ---\<newline>'', ''See --- Page 2 --- below'']
   \<and> pdfplumber_pages 1 marker_in_text_document []
     = [''\<newline>--- Page 1 ---\<newline>'', ''See --- Page 2 --- below'']
   \<and> success (fst (process_pdf_from_url env_marker_in_text example_url (PyStr ''pypdf2'')))
   \<and> pages_processed
        (metadata (fst (process_pdf_from_url env_marker_in_text example_url (PyStr ''pypdf2''))))
       = 2
   \<and> pages_processed
        (metadata (fst (process_pdf_from_url env_marker_in_text example_url
                          (PyStr ''pdfplumber''))))
       = 2"
  by code_simp

subsection \<open>Reading a report back\<close>

lemma strip_prefix_append [simp]: "strip_prefix p (p @ s) = Some s"
  by (simp add: strip_prefix_def)

lemma strip_suffix_append [simp]: "strip_suffix sfx (a @ sfx) = Some a"
  by (simp add: strip_suffix_def)

lemma takeWhile_line:
  "CHR ''\<newline>'' \<notin> set a \<Longrightarrow>
   takeWhile (\<lambda>c. c \<noteq> CHR ''\<newline>'') (a @ CHR ''\<newline>'' # b) = a"
  by (induction a) auto

lemma dropWhile_line:
  "CHR ''\<newline>'' \<notin> set a \<Longrightarrow>
   dropWhile (\<lambda>c. c \<noteq> CHR ''\<newline>'') (a @ CHR ''\<newline>'' # b) = CHR ''\<newline>'' # b"
  by (induction a) auto

lemma split_line_append:
  "CHR ''\<newline>'' \<notin> set a \<Longrightarrow> split_line (a @ CHR ''\<newline>'' # b) = Some (a, b)"
  by (simp add: split_line_def takeWhile_line dropWhile_line)

lemma split_line_append2:
  "CHR ''\<newline>'' \<notin> set a \<Longrightarrow> CHR ''\<newline>'' \<notin> set b \<Longrightarrow>
   split_line (a @ b @ CHR ''\<newline>'' # c) = Some (a @ b, c)"
  using split_line_append [of "a @ b" c] by simp

lemma of_char_digit_char: "d < 10 \<Longrightarrow> (of_char (digit_char d) :: nat) = 48 + d"
  by (simp add: digit_char_def)

lemma is_digit_digit_char: "d < 10 \<Longrightarrow> is_digit (digit_char d)"
  by (simp add: is_digit_def of_char_digit_char)

lemma str_nat_digits: "list_all is_digit (str_nat n)"
proof (induction n rule: str_nat.induct)
  case (1 n)
  show ?case
  proof (cases "n < 10")
    case True
    then show ?thesis
      by (subst str_nat.simps) (simp add: is_digit_digit_char)
  next
    case False
    with 1 show ?thesis
      by (subst str_nat.simps) (simp add: is_digit_digit_char)
  qed
qed

lemma str_nat_not_Nil: "str_nat n \<noteq> []"
  by (subst str_nat.simps) simp

lemma str_nat_value: "foldl (\<lambda>a c. 10 * a + (of_char c - 48)) 0 (str_nat n) = n"
proof (induction n rule: str_nat.induct)
  case (1 n)
  show ?case
  proof (cases "n < 10")
    case True
    then show ?thesis
      by (subst str_nat.simps) (simp add: of_char_digit_char)
  next
    case False
    with 1 show ?thesis
      by (subst str_nat.simps) (simp add: of_char_digit_char)
  qed
qed

lemma parse_nat_str_nat [simp]: "parse_nat (str_nat n) = Some n"
  by (simp add: parse_nat_def str_nat_digits str_nat_not_Nil str_nat_value)

lemma str_nat_no_line_break: "CHR ''\<newline>'' \<notin> set (str_nat n)"
proof
  assume "CHR ''\<newline>'' \<in> set (str_nat n)"
  with str_nat_digits [of n] have "is_digit CHR ''\<newline>''"
    by (simp add: list_all_iff)
  then show False
    by (simp add: is_digit_def)
qed

lemma suffix_characters_no_line_break: "CHR ''\<newline>'' \<notin> set suffix_characters"
  by (simp add: suffix_characters_def)

lemma report_header_lines:
  "report_header m =
     label_source @ md_url m @ CHR ''\<newline>'' #
     label_pages @ str_nat (pages_processed m) @ CHR ''\<newline>'' #
     label_length @ str_nat (content_length m) @ suffix_characters @ CHR ''\<newline>'' #
     label_method @ py_str (md_method m) @ CHR ''\<newline>'' #
     label_content"
  by (simp add: report_header_def label_source_def label_pages_def label_length_def
      suffix_characters_def label_method_def label_content_def)

lemma parse_report_header:
  assumes "CHR ''\<newline>'' \<notin> set (md_url m)"
    and "CHR ''\<newline>'' \<notin> set (py_str (md_method m))"
  shows "parse_report (report_header m @ t)
           = Some (md_url m, pages_processed m, content_length m, py_str (md_method m), t)"
  using assms
  by (simp add: report_header_lines parse_report_def parse_field_def parse_length_field_def
      split_line_append split_line_append2 str_nat_no_line_break
      suffix_characters_no_line_break)

lemma download_and_parse_pdf_report:
  assumes "s \<noteq> []" and "m = ''pdfplumber'' \<or> m = ''pypdf2''"
    and "success (fst (process_pdf_from_url e s (PyStr m)))"
  shows "fst (download_and_parse_pdf e (PyStr s) (PyStr m))
           = format_report (fst (process_pdf_from_url e s (PyStr m)))"
  using assms
  by (auto simp: download_and_parse_pdf_valid format_report_def Let_def)

lemma process_metadata:
  assumes "process_pdf_from_url e url m = (r, ev)"
  shows "md_url (metadata r) = url" and "md_method (metadata r) = m"
    and "content_length (metadata r) = length (text' r)"
  using process_cases [OF assms]
  by (auto simp: initial_result_def)

text \<open>
  C8, amended. Take a successful result of \<open>process_pdf_from_url\<close> for a url and a method
  that hold no line break. Parsing the header fields out of its report gives back the
  url, the pages processed, the content length (the length of the text) and the method,
  and the content section is the extracted text.
\<close>

theorem report_round_trip:
  assumes "process_pdf_from_url e url (PyStr m) = (r, ev)"
    and "success r"
    and "CHR ''\<newline>'' \<notin> set url"
    and "CHR ''\<newline>'' \<notin> set m"
  shows "parse_report (format_report r)
           = Some (url, pages_processed (metadata r), length (text' r), m, text' r)"
proof -
  have u: "md_url (metadata r) = url" and c: "content_length (metadata r) = length (text' r)"
    and p: "py_str (md_method (metadata r)) = m"
    using process_metadata [OF assms(1)] by simp_all
  have "parse_report (report_header (metadata r) @ text' r)
          = Some (md_url (metadata r), pages_processed (metadata r),
                  content_length (metadata r), py_str (md_method (metadata r)), text' r)"
    by (rule parse_report_header) (simp_all add: u p assms)
  then show ?thesis
    by (simp add: format_report_def u c p)
qed

theorem report_round_trip_witness:
  "success (fst (process_pdf_from_url env_three_pages example_url (PyStr ''pdfplumber'')))
   \<and> CHR ''\<newline>'' \<notin> set example_url
   \<and> CHR ''\<newline>'' \<notin> set ''pdfplumber''
   \<and> parse_report
        (format_report (fst (process_pdf_from_url env_three_pages example_url
                               (PyStr ''pdfplumber''))))
       = Some (example_url, 2, 43, ''pdfplumber'',
               ''\<newline>--- Page 1 ---\<newline>\<newline>Hello\<newline>\<newline>--- Page 3 ---\<newline>\<newline>x y'')"
proof -
  let ?P = "process_pdf_from_url env_three_pages example_url (PyStr ''pdfplumber'')"
  have a: "?P = (fst ?P, snd ?P)" by simp
  have s: "success (fst ?P)" by code_simp
  have u: "CHR ''\<newline>'' \<notin> set example_url" by (simp add: example_url_def)
  have m: "CHR ''\<newline>'' \<notin> set ''pdfplumber''" by simp
  have v: "pages_processed (metadata (fst ?P)) = 2" by code_simp
  have t: "text' (fst ?P)
             = ''\<newline>--- Page 1 ---\<newline>\<newline>Hello\<newline>\<newline>--- Page 3 ---\<newline>\<newline>x y''"
    by code_simp
  from report_round_trip [OF a s u m] s u m show ?thesis
    by (simp add: v t)
qed

text \<open>
  The claim as stated fails for a url that holds line breaks: two successful results
  with different urls, texts and content lengths have the same report, so that no parser
  recovers the fields of both.
\<close>

theorem report_round_trip_counterexample:
  "success (fst (process_pdf_from_url env_header_lines example_url (PyStr ''pdfplumber'')))
   \<and> success (fst (process_pdf_from_url env_one_page line_break_url (PyStr ''pdfplumber'')))
   \<and> format_report (fst (process_pdf_from_url env_header_lines example_url
                             (PyStr ''pdfplumber'')))
       = format_report (fst (process_pdf_from_url env_one_page line_break_url
                               (PyStr ''pdfplumber'')))
   \<and> fst (download_and_parse_pdf env_header_lines (PyStr example_url) (PyStr ''pdfplumber''))
       = fst (download_and_parse_pdf env_one_page (PyStr line_break_url) (PyStr ''pdfplumber''))
   \<and> md_url (metadata (fst (process_pdf_from_url env_header_lines example_url
                               (PyStr ''pdfplumber''))))
       \<noteq> md_url (metadata (fst (process_pdf_from_url env_one_page line_break_url
                                  (PyStr ''pdfplumber''))))
   \<and> content_length (metadata (fst (process_pdf_from_url env_header_lines example_url
                                       (PyStr ''pdfplumber'')))) = 138
   \<and> content_length (metadata (fst (process_pdf_from_url env_one_page line_break_url
                                       (PyStr ''pdfplumber'')))) = 18
   \<and> parse_report
        (fst (download_and_parse_pdf env_one_page (PyStr line_break_url) (PyStr ''pdfplumber'')))
       = Some (example_url, 2, 138, ''pdfplumber'',
               text' (fst (process_pdf_from_url env_header_lines example_url
                             (PyStr ''pdfplumber''))))"
  by code_simp

subsection \<open>When the count of pages processed is right\<close>

lemma py_strip_not_blank: "py_strip t \<noteq> [] \<Longrightarrow> t \<noteq> []"
  by auto

lemma pypdf2_pages_kept: "pypdf2_pages n ps acc = acc @ blocks_of (kept_pages n ps)"
  by (induction n ps arbitrary: acc rule: kept_pages.induct) auto

lemma pdfplumber_pages_kept: "pdfplumber_pages n ps acc = acc @ blocks_of (kept_pages n ps)"
  by (induction n ps arbitrary: acc rule: kept_pages.induct) (auto dest: py_strip_not_blank)

lemma py_count_short: "length s < length sub \<Longrightarrow> py_count s sub = 0"
  by (subst py_count.simps) auto

lemma take_whole: "take (length sub) s = sub \<Longrightarrow> length sub \<le> length s"
proof -
  assume "take (length sub) s = sub"
  then have "length (take (length sub) s) = length sub" by simp
  then show ?thesis by (simp add: min_def split: if_splits)
qed

lemma py_count_hit:
  "sub \<noteq> [] \<Longrightarrow> take (length sub) s = sub \<Longrightarrow>
   py_count s sub = 1 + py_count (drop (length sub) s) sub"
proof -
  assume a: "sub \<noteq> []" "take (length sub) s = sub"
  then have "length sub \<le> length s"
    by (simp add: take_whole)
  with a show ?thesis
    by (subst py_count.simps) simp
qed

lemma py_count_miss:
  "sub \<noteq> [] \<Longrightarrow> take (length sub) s \<noteq> sub \<Longrightarrow> py_count s sub = py_count (tl s) sub"
proof (cases "length s < length sub")
  case True
  then have "length (tl s) < length sub" by simp
  with True show ?thesis by (simp add: py_count_short)
next
  case False
  assume "sub \<noteq> []" "take (length sub) s \<noteq> sub"
  with False show ?thesis
    by (subst py_count.simps) simp
qed

lemma py_count_no_occurrence:
  "sub \<noteq> [] \<Longrightarrow> \<not> sublist sub s \<Longrightarrow> py_count s sub = 0"
proof (induction s)
  case Nil
  then show ?case by (simp add: py_count_short)
next
  case (Cons x s)
  have "\<not> prefix sub (x # s)" and r: "\<not> sublist sub s"
    using Cons.prems(2) by (auto simp: sublist_Cons_right)
  then have "take (length sub) (x # s) \<noteq> sub"
    by (metis take_is_prefix)
  then have "py_count (x # s) sub = py_count s sub"
    using Cons.prems(1) by (simp add: py_count_miss)
  with Cons.IH [OF Cons.prems(1) r] show ?case by simp
qed

lemma take_over_line_break:
  assumes "length a < length sub"
  shows "c \<in> set (take (length sub) (a @ c # b))"
proof -
  have "take (length sub) (a @ c # b) = a @ c # take (length sub - length a - 1) b"
    using assms by (cases "length sub - length a") auto
  then show ?thesis by simp
qed

lemma py_count_line_break:
  assumes "sub \<noteq> []" and "c \<notin> set sub"
  shows "py_count (a @ c # b) sub = py_count a sub + py_count b sub"
proof (induction "length a" arbitrary: a rule: less_induct)
  case less
  show ?case
  proof (cases "take (length sub) (a @ c # b) = sub")
    case True
    have la: "length sub \<le> length a"
    proof (rule ccontr)
      assume "\<not> length sub \<le> length a"
      then have "c \<in> set (take (length sub) (a @ c # b))"
        by (intro take_over_line_break) simp
      with True assms(2) show False by simp
    qed
    then have ta: "take (length sub) a = sub"
      using True by simp
    have d: "drop (length sub) (a @ c # b) = drop (length sub) a @ c # b"
      using la by simp
    have "length (drop (length sub) a) < length a"
      using la assms(1) by (cases sub) auto
    then have "py_count (drop (length sub) a @ c # b) sub
                 = py_count (drop (length sub) a) sub + py_count b sub"
      by (rule less.hyps)
    then show ?thesis
      using py_count_hit [OF assms(1) True] py_count_hit [OF assms(1) ta] d by simp
  next
    case False
    then have m: "py_count (a @ c # b) sub = py_count (tl (a @ c # b)) sub"
      using assms(1) by (simp add: py_count_miss)
    show ?thesis
    proof (cases a)
      case Nil
      with m assms(1) show ?thesis
        by (simp add: py_count_short)
    next
      case (Cons x a')
      have "take (length sub) a \<noteq> sub"
      proof
        assume t: "take (length sub) a = sub"
        then have "length sub \<le> length a"
          by (rule take_whole)
        with t have "take (length sub) (a @ c # b) = sub" by simp
        with False show False by simp
      qed
      then have "py_count a sub = py_count a' sub"
        using assms(1) Cons by (simp add: py_count_miss)
      moreover have "py_count (a' @ c # b) sub = py_count a' sub + py_count b sub"
        by (rule less.hyps) (simp add: Cons)
      ultimately show ?thesis
        using m Cons by simp
    qed
  qed
qed

lemma page_marker_lines:
  "page_marker n = CHR ''\<newline>'' # (''--- Page '' @ str_nat n @ '' ---'') @ [CHR ''\<newline>'']"
  by (simp add: page_marker_def)

lemma py_count_marker_line:
  "py_count (''--- Page '' @ str_nat n @ '' ---'') ''--- Page'' = 1"
proof -
  have "CHR ''P'' \<notin> set (str_nat n)"
  proof
    assume "CHR ''P'' \<in> set (str_nat n)"
    with str_nat_digits [of n] have "is_digit CHR ''P''"
      by (simp add: list_all_iff)
    then show False by (simp add: is_digit_def)
  qed
  then have "CHR ''P'' \<notin> set ('' '' @ str_nat n @ '' ---'')"
    by simp
  moreover have "CHR ''P'' \<in> set ''--- Page''"
    by simp
  ultimately have "\<not> sublist ''--- Page'' ('' '' @ str_nat n @ '' ---'')"
    using set_mono_sublist by fastforce
  then have "py_count ('' '' @ str_nat n @ '' ---'') ''--- Page'' = 0"
    by (intro py_count_no_occurrence) simp_all
  moreover have "py_count (''--- Page '' @ str_nat n @ '' ---'') ''--- Page''
      = 1 + py_count (drop (length ''--- Page'') (''--- Page '' @ str_nat n @ '' ---''))
              ''--- Page''"
    by (rule py_count_hit) simp_all
  ultimately show ?thesis by simp
qed

lemma py_count_page_marker: "py_count (page_marker n) ''--- Page'' = 1"
proof -
  define core where "core = ''--- Page '' @ str_nat n @ '' ---''"
  have c: "py_count core ''--- Page'' = 1"
    unfolding core_def by (rule py_count_marker_line)
  have m: "page_marker n = [] @ CHR ''\<newline>'' # (core @ CHR ''\<newline>'' # [])"
    by (simp add: page_marker_def core_def)
  have split: "\<And>a b. py_count (a @ CHR ''\<newline>'' # b) ''--- Page''
                  = py_count a ''--- Page'' + py_count b ''--- Page''"
    by (rule py_count_line_break) simp_all
  show ?thesis
    unfolding m split by (simp add: c py_count_Nil)
qed

lemma py_count_blocks:
  assumes "\<forall>(n, t) \<in> set kept. \<not> sublist ''--- Page'' t"
  shows "py_count (py_join ''\<newline>'' (blocks_of kept)) ''--- Page'' = length kept"
  using assms
proof (induction kept)
  case Nil
  then show ?case by (simp add: py_count_Nil)
next
  case (Cons k kept)
  obtain n t where k: "k = (n, t)" by (cases k)
  have t: "py_count t ''--- Page'' = 0"
    using Cons.prems k by (intro py_count_no_occurrence) auto
  have ih: "py_count (py_join ''\<newline>'' (blocks_of kept)) ''--- Page'' = length kept"
    using Cons by simp
  have split: "\<And>a b. py_count (a @ CHR ''\<newline>'' # b) ''--- Page''
                  = py_count a ''--- Page'' + py_count b ''--- Page''"
    by (rule py_count_line_break) simp_all
  show ?case
  proof (cases "blocks_of kept")
    case Nil
    then have "kept = []" by (cases kept) auto
    moreover have "py_join ''\<newline>'' [page_marker n, t] = page_marker n @ CHR ''\<newline>'' # t"
      by simp
    ultimately show ?thesis
      using k t by (simp add: split py_count_page_marker)
  next
    case (Cons b bs)
    then have "py_join ''\<newline>'' (page_marker n # t # blocks_of kept)
        = page_marker n @ CHR ''\<newline>'' # (t @ CHR ''\<newline>'' # py_join ''\<newline>'' (blocks_of kept))"
      by simp
    then show ?thesis
      using k t ih by (simp add: split py_count_page_marker)
  qed
qed

text \<open>
  Where no page text holds \<^verbatim>\<open>--- Page\<close>, the count that \<open>process_pdf_from_url\<close> takes is
  the number of pages that got a marker, for both extractors.
\<close>

lemma pages_processed_without_marker_text:
  assumes "\<forall>(n, t) \<in> set (kept_pages 1 pages). \<not> sublist ''--- Page'' t"
  shows "py_count (py_join ''\<newline>'' (pypdf2_pages 1 pages [])) ''--- Page''
           = length (kept_pages 1 pages)"
    and "py_count (py_join ''\<newline>'' (pdfplumber_pages 1 pages [])) ''--- Page''
           = length (kept_pages 1 pages)"
  using py_count_blocks [OF assms]
  by (simp_all add: pypdf2_pages_kept pdfplumber_pages_kept)

end
